theory Spec2Isabelle
  imports Main
begin

section \<open>C arithmetic used by support.c\<close>

text \<open>
  Every quantity of the game is a C \<open>int\<close> holding a terminal coordinate, a small
  counter or a flag. Signed overflow is undefined in C, so no defined run of the program
  wraps; the integers are modelled as \<open>int\<close>. C's \<open>/\<close> truncates towards zero,
  whereas \<open>div\<close> rounds down, so the quotient is written out.
\<close>

definition c_div :: "int \<Rightarrow> int \<Rightarrow> int" where
  "c_div a b = sgn a * sgn b * (\<bar>a\<bar> div \<bar>b\<bar>)"

text \<open>
  Modelled from the spec: the macro \<open>MAX\<close> comes from a header that is not part of the
  sources; the spec reads \<open>MAX(a, b)\<close> as the maximum of its two arguments, which is the
  usual \<open>((a) > (b) ? (a) : (b))\<close>.
\<close>

definition MAX_macro :: "int \<Rightarrow> int \<Rightarrow> int" where
  "MAX_macro a b = (if a > b then a else b)"

section \<open>Constants of support.h\<close>

text \<open>
  The header support.h is not among the sources. Its constants are parameters of the
  model: nothing below depends on their values unless a theorem says so. With them goes
  one property of the compiler, which C leaves to the implementation: whether plain
  \<open>char\<close> is signed.
\<close>

record config =
  PADDLE_WIDTH :: int
  FIELD_TOP :: int
  MAX_HITCNT :: int
  MAX_LEVEL :: int
  PLAY_KEY :: int
  QUIT_KEY :: int
  char_signed :: bool

text \<open>
  The value of an \<open>int\<close> stored in a \<open>char\<close> and read back as an \<open>int\<close>: the low
  eight bits, as a number from -128 to 127 or from 0 to 255. That is what
  \<open>char c; c = getch();\<close> makes of a key code before \<open>c\<close> is compared.
\<close>

definition c_char :: "config \<Rightarrow> int \<Rightarrow> int" where
  "c_char cfg k = (if char_signed cfg then (k + 128) mod 256 - 128 else k mod 256)"

text \<open>The key codes of curses.h for the two arrow keys (octal 0403 and 0402).\<close>

definition KEY_UP :: int where
  "KEY_UP = 259"

definition KEY_DOWN :: int where
  "KEY_DOWN = 258"

text \<open>\<open>PADDLE_WIDTH / 2\<close>, the expression every bound of the source is written with.\<close>

definition half_paddle :: "config \<Rightarrow> int" where
  "half_paddle cfg = c_div (PADDLE_WIDTH cfg) 2"

section \<open>The shared game data\<close>

text \<open>
  The four tags written to the pipe. The model keeps the sequence of tags written to
  \<open>pipedes[1]\<close> in the field \<open>pipe\<close>, oldest first.
\<close>

datatype tag = KBD_TAG | AI_TAG | BALL_TAG | QUIT_TAG

record game_data =
  bottom_row :: int
  paddle_col :: int
  ai_paddle_col :: int
  paddle_pos :: int
  paddle_pos_old :: int
  ai_paddle_pos :: int
  ai_paddle_pos_old :: int
  ball_x :: int
  ball_y :: int
  ball_x_old :: int
  ball_y_old :: int
  ball_dirx :: int
  ball_diry :: int
  gameLevel :: int
  hitCnt :: int
  play_flag :: int
  exit_flag :: int
  termination_flag :: int
  haltFlag :: int
  winner :: int
  pipe :: "tag list"

text \<open>
  What one pass of a worker's loop comes to:
  \<^item> \<open>Halted\<close>: the worker is in \<open>while (data->haltFlag != 0);\<close> and has changed nothing;
  \<^item> \<open>Running\<close>: the pass is complete and the loop goes on;
  \<^item> \<open>Returned\<close>: the thread function has returned;
  \<^item> \<open>Exited\<close>: \<open>termination_handler\<close> was called, which ends the process by \<open>exit(1)\<close>;
  \<^item> \<open>Blocked\<close>: the worker waits in \<open>getch\<close> for a key that has not been typed yet.
  Each carries the shared data as the pass left it.
\<close>

datatype outcome =
    Halted game_data
  | Running game_data
  | Returned game_data
  | Exited game_data
  | Blocked game_data

fun state_of :: "outcome \<Rightarrow> game_data" where
  "state_of (Halted d) = d"
| "state_of (Running d) = d"
| "state_of (Returned d) = d"
| "state_of (Exited d) = d"
| "state_of (Blocked d) = d"

section \<open>resize_handler\<close>

text \<open>
  \<open>maxy\<close> and \<open>maxx\<close> are what \<open>getmaxy(stdscr)\<close> and \<open>getmaxx(stdscr)\<close> return after
  \<open>wresize\<close>. Clearing and repainting the screen touches no field of the game data.
\<close>

definition resize_handler :: "config \<Rightarrow> int \<Rightarrow> int \<Rightarrow> game_data \<Rightarrow> game_data" where
  "resize_handler cfg maxy maxx d =
     (let d1 = d\<lparr>bottom_row := maxy - 1\<rparr>;
          d2 = d1\<lparr>paddle_col := maxx - 1\<rparr>;
          d3 = (if paddle_pos d2 > bottom_row d2 - c_div (PADDLE_WIDTH cfg) 2
                then d2\<lparr>paddle_pos := MAX_macro (bottom_row d2 - c_div (PADDLE_WIDTH cfg) 2)
                                                (c_div (PADDLE_WIDTH cfg) 2)\<rparr>
                else d2);
          d4 = (if ai_paddle_pos d3 > bottom_row d3 - c_div (PADDLE_WIDTH cfg) 2
                then d3\<lparr>ai_paddle_pos := MAX_macro (bottom_row d3 - c_div (PADDLE_WIDTH cfg) 2)
                                                   (c_div (PADDLE_WIDTH cfg) 2)\<rparr>
                else d3);
          d5 = (if ball_y d4 > bottom_row d4 then d4\<lparr>ball_y := bottom_row d4\<rparr> else d4);
          d6 = (if ball_x d5 > maxx then d5\<lparr>ball_y := c_div maxx 2\<rparr> else d5)
      in d6)"

section \<open>keyboard_handler\<close>

text \<open>
  The \<open>switch\<close> on the key \<open>ch\<close>. \<open>mouse\<close> is what \<open>getmouse\<close> yields in the
  default branch: \<open>Some y\<close> when it returns \<open>OK\<close> with an event in row \<open>y\<close>,
  \<open>None\<close> otherwise.
\<close>

definition keyboard_handler_switch :: "config \<Rightarrow> int \<Rightarrow> int option \<Rightarrow> game_data \<Rightarrow> game_data" where
  "keyboard_handler_switch cfg ch mouse d =
     (if ch = KEY_UP then
        (let d1 = d\<lparr>paddle_pos_old := paddle_pos d\<rparr>;
             d2 = (if paddle_pos d1 > c_div (PADDLE_WIDTH cfg) 2
                   then d1\<lparr>paddle_pos := paddle_pos d1 - 1\<rparr> else d1)
         in d2\<lparr>pipe := pipe d2 @ [KBD_TAG]\<rparr>)
      else if ch = KEY_DOWN then
        (let d1 = d\<lparr>paddle_pos_old := paddle_pos d\<rparr>;
             d2 = (if paddle_pos d1 < bottom_row d1 - c_div (PADDLE_WIDTH cfg) 2
                   then d1\<lparr>paddle_pos := paddle_pos d1 + 1\<rparr> else d1)
         in d2\<lparr>pipe := pipe d2 @ [KBD_TAG]\<rparr>)
      else if ch = PLAY_KEY cfg then d\<lparr>play_flag := 1\<rparr>
      else if ch = QUIT_KEY cfg then
        (let d1 = d\<lparr>exit_flag := 1\<rparr> in d1\<lparr>pipe := pipe d1 @ [QUIT_TAG]\<rparr>)
      else
        (case mouse of
           Some y \<Rightarrow>
             (let d1 = d\<lparr>paddle_pos_old := paddle_pos d\<rparr>;
                  d2 = d1\<lparr>paddle_pos := y\<rparr>
              in d2\<lparr>pipe := pipe d2 @ [KBD_TAG]\<rparr>)
         | None \<Rightarrow> d))"

text \<open>
  One pass of the loop of \<open>keyboard_handler\<close>, for the key \<open>ch\<close> that \<open>getch\<close>
  returned: the loop test, the wait on \<open>haltFlag\<close>, the \<open>switch\<close>.
\<close>

definition keyboard_handler_body :: "config \<Rightarrow> int \<Rightarrow> int option \<Rightarrow> game_data \<Rightarrow> outcome" where
  "keyboard_handler_body cfg ch mouse d =
     (if termination_flag d \<noteq> 0 then Returned d
      else if haltFlag d \<noteq> 0 then Halted d
      else Running (keyboard_handler_switch cfg ch mouse d))"

section \<open>ball_handler\<close>

text \<open>The two assignments before the loop.\<close>

definition ball_handler_init :: "game_data \<Rightarrow> game_data" where
  "ball_handler_init d = (let d1 = d\<lparr>gameLevel := 0\<rparr> in d1\<lparr>hitCnt := 0\<rparr>)"

text \<open>Saving the old coordinates and advancing the ball.\<close>

definition ball_handler_move :: "game_data \<Rightarrow> game_data" where
  "ball_handler_move d =
     (let d1 = d\<lparr>ball_y_old := ball_y d\<rparr>;
          d2 = d1\<lparr>ball_x_old := ball_x d1\<rparr>;
          d3 = d2\<lparr>ball_y := ball_y d2 + ball_diry d2\<rparr>
      in d3\<lparr>ball_x := ball_x d3 + ball_dirx d3\<rparr>)"

text \<open>Reflection on the top and the bottom of the field.\<close>

definition ball_handler_wall :: "config \<Rightarrow> game_data \<Rightarrow> game_data" where
  "ball_handler_wall cfg d =
     (if ball_y d < FIELD_TOP cfg \<or> ball_y d > bottom_row d then
        (let d1 = d\<lparr>ball_diry := ball_diry d * (- 1)\<rparr>
         in d1\<lparr>ball_y := ball_y d1 + 2 * ball_diry d1\<rparr>)
      else d)"

text \<open>
  The \<open>do ... while (c != ' ')\<close> loop of the level banner. \<open>keys\<close> are the key codes
  that \<open>getch\<close> returns, in order; each is stored in the \<open>char c\<close> before it is
  compared. The flag is set on every round of the loop; the quit key calls
  \<open>termination_handler\<close>, which does not return; a blank (32) ends the loop; when the
  keys run out the worker is left waiting in \<open>getch\<close>.
\<close>

fun ball_handler_wait :: "config \<Rightarrow> int list \<Rightarrow> game_data \<Rightarrow> outcome" where
  "ball_handler_wait cfg [] d = Blocked (d\<lparr>haltFlag := 1\<rparr>)"
| "ball_handler_wait cfg (k # ks) d =
     (let d1 = d\<lparr>haltFlag := 1\<rparr>;
          c = c_char cfg k
      in if c = QUIT_KEY cfg then Exited d1
         else if c \<noteq> 32 then ball_handler_wait cfg ks d1
         else Running d1)"

text \<open>The counting of hits and the level banner, after an accepted hit.\<close>

definition ball_handler_level :: "config \<Rightarrow> int list \<Rightarrow> game_data \<Rightarrow> outcome" where
  "ball_handler_level cfg keys d =
     (if hitCnt d \<ge> MAX_HITCNT cfg then
        (let d1 = d\<lparr>gameLevel := gameLevel d + 1\<rparr>;
             d2 = d1\<lparr>hitCnt := 0\<rparr>
         in case ball_handler_wait cfg keys d2 of
              Running d3 \<Rightarrow> Running (d3\<lparr>haltFlag := 0\<rparr>)
            | r \<Rightarrow> r)
      else Running (d\<lparr>hitCnt := hitCnt d + 1\<rparr>))"

text \<open>The end of a round: the flag, the winner, the tag, the return.\<close>

definition ball_handler_out :: "int \<Rightarrow> game_data \<Rightarrow> outcome" where
  "ball_handler_out w d =
     (let d1 = d\<lparr>play_flag := 0\<rparr>;
          d2 = d1\<lparr>winner := w\<rparr>
      in Returned (d2\<lparr>pipe := pipe d2 @ [QUIT_TAG]\<rparr>))"

text \<open>Reflection on the player's paddle.\<close>

definition ball_handler_player :: "config \<Rightarrow> int list \<Rightarrow> game_data \<Rightarrow> outcome" where
  "ball_handler_player cfg keys d =
     (if ball_x d = paddle_col d then
        (if \<bar>paddle_pos d - ball_y d - - ball_diry d\<bar> \<le> c_div (PADDLE_WIDTH cfg) 2 then
           (let d1 = d\<lparr>ball_dirx := ball_dirx d * (- 1)\<rparr>;
                d2 = d1\<lparr>ball_x := ball_x d1 + 2 * ball_dirx d1\<rparr>
            in case ball_handler_level cfg keys d2 of
                 Running d3 \<Rightarrow>
                   (if gameLevel d3 > MAX_LEVEL cfg then ball_handler_out 0 d3
                    else Running d3)
               | r \<Rightarrow> r)
         else ball_handler_out 1 d)
      else Running d)"

text \<open>Reflection on the paddle of the AI.\<close>

definition ball_handler_ai :: "config \<Rightarrow> game_data \<Rightarrow> outcome" where
  "ball_handler_ai cfg d =
     (if ball_x d = ai_paddle_col d then
        (if \<bar>ai_paddle_pos d - ball_y d - - ball_diry d\<bar> \<le> c_div (PADDLE_WIDTH cfg) 2 then
           (let d1 = d\<lparr>ball_dirx := ball_dirx d * (- 1)\<rparr>
            in Running (d1\<lparr>ball_x := ball_x d1 + 2 * ball_dirx d1\<rparr>))
         else ball_handler_out 0 d)
      else Running d)"

text \<open>
  One pass of the \<open>while (1)\<close> loop of \<open>ball_handler\<close>: the wait on \<open>haltFlag\<close>, the
  move, the wall, the two paddles, the \<open>BALL_TAG\<close>. The sleep changes no field.
\<close>

definition ball_handler_body :: "config \<Rightarrow> int list \<Rightarrow> game_data \<Rightarrow> outcome" where
  "ball_handler_body cfg keys d =
     (if haltFlag d \<noteq> 0 then Halted d
      else
        (case ball_handler_player cfg keys (ball_handler_wall cfg (ball_handler_move d)) of
           Running d1 \<Rightarrow>
             (case ball_handler_ai cfg d1 of
                Running d2 \<Rightarrow> Running (d2\<lparr>pipe := pipe d2 @ [BALL_TAG]\<rparr>)
              | r \<Rightarrow> r)
         | r \<Rightarrow> r))"

text \<open>
  The loop itself. It has no exit but the returns inside the pass, so the model runs it
  for as many passes as there are entries in \<open>kss\<close> (the keys typed during each pass);
  \<open>Running\<close> at the end means that the loop is still going.
\<close>

fun ball_handler_loop :: "config \<Rightarrow> int list list \<Rightarrow> game_data \<Rightarrow> outcome" where
  "ball_handler_loop cfg [] d = Running d"
| "ball_handler_loop cfg (ks # kss) d =
     (case ball_handler_body cfg ks d of
        Running d1 \<Rightarrow> ball_handler_loop cfg kss d1
      | r \<Rightarrow> r)"

definition ball_handler :: "config \<Rightarrow> int list list \<Rightarrow> game_data \<Rightarrow> outcome" where
  "ball_handler cfg kss d = ball_handler_loop cfg kss (ball_handler_init d)"

text \<open>
  The two assignments of an accepted hit on the player's paddle (\<open>ball_dirx *= -1\<close>,
  then \<open>ball_x += 2 * ball_dirx\<close>), in one step.
\<close>

definition hit_data :: "game_data \<Rightarrow> game_data" where
  "hit_data d = d\<lparr>ball_dirx := - ball_dirx d, ball_x := ball_x d + 2 * (- ball_dirx d)\<rparr>"

text \<open>
  The two tests that guard the reflection on the player's paddle: the ball is in the
  paddle's column, and within the paddle's reach.
\<close>

definition player_hit :: "config \<Rightarrow> game_data \<Rightarrow> bool" where
  "player_hit cfg d =
     (ball_x d = paddle_col d
      \<and> \<bar>paddle_pos d - ball_y d - - ball_diry d\<bar> \<le> c_div (PADDLE_WIDTH cfg) 2)"

section \<open>ai_handler\<close>

text \<open>The move of the paddle of the AI, and the tag.\<close>

definition ai_handler_move :: "config \<Rightarrow> game_data \<Rightarrow> game_data" where
  "ai_handler_move cfg d =
     (let diff = ball_y d - ai_paddle_pos d;
          new = ai_paddle_pos d + c_div diff (if diff = 0 then 1 else \<bar>diff\<bar>);
          d1 = d\<lparr>ai_paddle_pos_old := ai_paddle_pos d\<rparr>;
          d2 = (if new \<ge> c_div (PADDLE_WIDTH cfg) 2
                   \<and> new \<le> bottom_row d1 - c_div (PADDLE_WIDTH cfg) 2
                then d1\<lparr>ai_paddle_pos := new\<rparr> else d1)
      in d2\<lparr>pipe := pipe d2 @ [AI_TAG]\<rparr>)"

text \<open>One pass of the loop of \<open>ai_handler\<close>.\<close>

definition ai_handler_body :: "config \<Rightarrow> game_data \<Rightarrow> outcome" where
  "ai_handler_body cfg d =
     (if termination_flag d \<noteq> 0 then Returned d
      else if haltFlag d \<noteq> 0 then Halted d
      else Running (ai_handler_move cfg d))"

section \<open>The workers side by side\<close>





text \<open>
  Both paddles within \<open>[PADDLE_WIDTH/2, bottom_row - PADDLE_WIDTH/2]\<close>.
\<close>

definition paddles_in_bounds :: "config \<Rightarrow> game_data \<Rightarrow> bool" where
  "paddles_in_bounds cfg d =
     (half_paddle cfg \<le> paddle_pos d \<and> paddle_pos d \<le> bottom_row d - half_paddle cfg
    \<and> half_paddle cfg \<le> ai_paddle_pos d \<and> ai_paddle_pos d \<le> bottom_row d - half_paddle cfg)"

section \<open>The threads step by step\<close>

text \<open>
  The four parts of \<open>resize_handler\<close>: the new size, the player's paddle, the paddle of
  the AI, the ball.
\<close>

definition resize_handler_size :: "int \<Rightarrow> int \<Rightarrow> game_data \<Rightarrow> game_data" where
  "resize_handler_size maxy maxx d =
     (let d1 = d\<lparr>bottom_row := maxy - 1\<rparr> in d1\<lparr>paddle_col := maxx - 1\<rparr>)"

definition resize_handler_paddle :: "config \<Rightarrow> game_data \<Rightarrow> game_data" where
  "resize_handler_paddle cfg d =
     (if paddle_pos d > bottom_row d - c_div (PADDLE_WIDTH cfg) 2
      then d\<lparr>paddle_pos := MAX_macro (bottom_row d - c_div (PADDLE_WIDTH cfg) 2)
                                    (c_div (PADDLE_WIDTH cfg) 2)\<rparr>
      else d)"

definition resize_handler_ai_paddle :: "config \<Rightarrow> game_data \<Rightarrow> game_data" where
  "resize_handler_ai_paddle cfg d =
     (if ai_paddle_pos d > bottom_row d - c_div (PADDLE_WIDTH cfg) 2
      then d\<lparr>ai_paddle_pos := MAX_macro (bottom_row d - c_div (PADDLE_WIDTH cfg) 2)
                                       (c_div (PADDLE_WIDTH cfg) 2)\<rparr>
      else d)"

definition resize_handler_ball :: "int \<Rightarrow> game_data \<Rightarrow> game_data" where
  "resize_handler_ball maxx d =
     (let d1 = (if ball_y d > bottom_row d then d\<lparr>ball_y := bottom_row d\<rparr> else d)
      in if ball_x d1 > maxx then d1\<lparr>ball_y := c_div maxx 2\<rparr> else d1)"

text \<open>
  The steps of the threads at the grain that the bounds of the paddles need. No worker
  holds the lock while it writes, so any step of one thread may come between two steps
  of another. An arrow key is handled in two steps: the test of the bound, which leaves
  the input worker about to decrement (\<open>Dec\<close>) or to increment (\<open>Inc\<close>) when it
  succeeds, and the write. The AI worker likewise: the test, which leaves it about to
  store \<open>new\<close>, and the store. A resize goes through its four parts. \<open>kbd\<close>,
  \<open>ai_new\<close> and \<open>resizing\<close> hold where the three threads are; \<open>resizing\<close> keeps the
  width that the last part reads again.
\<close>

datatype pending = Idle | Dec | Inc

datatype resize_pc = No_resize | Sized int | Paddle_done int | Ai_done int

record world =
  shared :: game_data
  ai_new :: "int option"
  kbd :: pending
  resizing :: resize_pc

text \<open>
  The steps. \<open>Kbd_test\<close> is an input pass from the loop test up to the bound test of
  an arrow key (for any other key, the whole \<open>case\<close>); \<open>Kbd_store\<close> is the decrement
  or increment and the tag. \<open>Ai_test\<close> is an AI pass up to the bound test (and the tag
  when the test fails); \<open>Ai_store\<close> is the store and the tag. The ball worker writes
  none of \<open>bottom_row\<close>, \<open>paddle_pos\<close> and \<open>ai_paddle_pos\<close>; its pass is cut into
  the move, the wall, the two paddles and the tag, and these may come in any order,
  which allows more runs than the code has. \<open>Resize_size\<close>, \<open>Resize_paddle\<close>,
  \<open>Resize_ai\<close> and \<open>Resize_ball\<close> are the four parts of a call of
  \<open>resize_handler\<close>, in this order. A step of a thread that is not at that point
  changes nothing.
\<close>

datatype action =
    Kbd_test int "int option"
  | Kbd_store
  | Ai_test
  | Ai_store
  | Ball_move
  | Ball_wall
  | Ball_player "int list"
  | Ball_ai
  | Ball_tag
  | Resize_size int int
  | Resize_paddle
  | Resize_ai
  | Resize_ball

fun act :: "config \<Rightarrow> action \<Rightarrow> world \<Rightarrow> world" where
  "act cfg (Kbd_test ch mouse) w =
     (let d = shared w
      in if kbd w \<noteq> Idle \<or> termination_flag d \<noteq> 0 \<or> haltFlag d \<noteq> 0 then w
         else if ch = KEY_UP then
           (let d1 = d\<lparr>paddle_pos_old := paddle_pos d\<rparr>
            in if paddle_pos d1 > c_div (PADDLE_WIDTH cfg) 2
               then w\<lparr>shared := d1, kbd := Dec\<rparr>
               else w\<lparr>shared := d1\<lparr>pipe := pipe d1 @ [KBD_TAG]\<rparr>\<rparr>)
         else if ch = KEY_DOWN then
           (let d1 = d\<lparr>paddle_pos_old := paddle_pos d\<rparr>
            in if paddle_pos d1 < bottom_row d1 - c_div (PADDLE_WIDTH cfg) 2
               then w\<lparr>shared := d1, kbd := Inc\<rparr>
               else w\<lparr>shared := d1\<lparr>pipe := pipe d1 @ [KBD_TAG]\<rparr>\<rparr>)
         else w\<lparr>shared := keyboard_handler_switch cfg ch mouse d\<rparr>)"
| "act cfg Kbd_store w =
     (case kbd w of
        Idle \<Rightarrow> w
      | Dec \<Rightarrow>
          (let d = shared w;
               d1 = d\<lparr>paddle_pos := paddle_pos d - 1\<rparr>
           in w\<lparr>shared := d1\<lparr>pipe := pipe d1 @ [KBD_TAG]\<rparr>, kbd := Idle\<rparr>)
      | Inc \<Rightarrow>
          (let d = shared w;
               d1 = d\<lparr>paddle_pos := paddle_pos d + 1\<rparr>
           in w\<lparr>shared := d1\<lparr>pipe := pipe d1 @ [KBD_TAG]\<rparr>, kbd := Idle\<rparr>))"
| "act cfg Ai_test w =
     (let d = shared w
      in if ai_new w \<noteq> None \<or> termination_flag d \<noteq> 0 \<or> haltFlag d \<noteq> 0 then w
         else
           (let diff = ball_y d - ai_paddle_pos d;
                new = ai_paddle_pos d + c_div diff (if diff = 0 then 1 else \<bar>diff\<bar>);
                d1 = d\<lparr>ai_paddle_pos_old := ai_paddle_pos d\<rparr>
            in if new \<ge> c_div (PADDLE_WIDTH cfg) 2
                  \<and> new \<le> bottom_row d1 - c_div (PADDLE_WIDTH cfg) 2
               then w\<lparr>shared := d1, ai_new := Some new\<rparr>
               else w\<lparr>shared := d1\<lparr>pipe := pipe d1 @ [AI_TAG]\<rparr>\<rparr>))"
| "act cfg Ai_store w =
     (case ai_new w of
        None \<Rightarrow> w
      | Some new \<Rightarrow>
          (let d = shared w;
               d1 = d\<lparr>ai_paddle_pos := new\<rparr>
           in w\<lparr>shared := d1\<lparr>pipe := pipe d1 @ [AI_TAG]\<rparr>, ai_new := None\<rparr>))"
| "act cfg Ball_move w = w\<lparr>shared := ball_handler_move (shared w)\<rparr>"
| "act cfg Ball_wall w = w\<lparr>shared := ball_handler_wall cfg (shared w)\<rparr>"
| "act cfg (Ball_player keys) w =
     w\<lparr>shared := state_of (ball_handler_player cfg keys (shared w))\<rparr>"
| "act cfg Ball_ai w = w\<lparr>shared := state_of (ball_handler_ai cfg (shared w))\<rparr>"
| "act cfg Ball_tag w = w\<lparr>shared := (shared w)\<lparr>pipe := pipe (shared w) @ [BALL_TAG]\<rparr>\<rparr>"
| "act cfg (Resize_size maxy maxx) w =
     (case resizing w of
        No_resize \<Rightarrow>
          w\<lparr>shared := resize_handler_size maxy maxx (shared w), resizing := Sized maxx\<rparr>
      | _ \<Rightarrow> w)"
| "act cfg Resize_paddle w =
     (case resizing w of
        Sized maxx \<Rightarrow>
          w\<lparr>shared := resize_handler_paddle cfg (shared w), resizing := Paddle_done maxx\<rparr>
      | _ \<Rightarrow> w)"
| "act cfg Resize_ai w =
     (case resizing w of
        Paddle_done maxx \<Rightarrow>
          w\<lparr>shared := resize_handler_ai_paddle cfg (shared w), resizing := Ai_done maxx\<rparr>
      | _ \<Rightarrow> w)"
| "act cfg Resize_ball w =
     (case resizing w of
        Ai_done maxx \<Rightarrow>
          w\<lparr>shared := resize_handler_ball maxx (shared w), resizing := No_resize\<rparr>
      | _ \<Rightarrow> w)"

fun acts :: "config \<Rightarrow> action list \<Rightarrow> world \<Rightarrow> world" where
  "acts cfg [] w = w"
| "acts cfg (a # as) w = acts cfg as (act cfg a w)"

text \<open>
  The runs for which the bounds are shown: no pointer event; every resize leaves room
  for a paddle, \<open>PADDLE_WIDTH/2 \<le> bottom_row - PADDLE_WIDTH/2\<close>; and no part of a resize
  comes while a worker is between its bound test and its write.
\<close>

fun allowed :: "config \<Rightarrow> action \<Rightarrow> world \<Rightarrow> bool" where
  "allowed cfg (Kbd_test ch mouse) w =
     (ch = KEY_UP \<or> ch = KEY_DOWN \<or> ch = PLAY_KEY cfg \<or> ch = QUIT_KEY cfg \<or> mouse = None)"
| "allowed cfg (Resize_size maxy maxx) w =
     (ai_new w = None \<and> kbd w = Idle \<and> half_paddle cfg \<le> maxy - 1 - half_paddle cfg)"
| "allowed cfg Resize_paddle w = (ai_new w = None \<and> kbd w = Idle)"
| "allowed cfg Resize_ai w = (ai_new w = None \<and> kbd w = Idle)"
| "allowed cfg Resize_ball w = (ai_new w = None \<and> kbd w = Idle)"
| "allowed cfg a w = True"

fun calm :: "config \<Rightarrow> action list \<Rightarrow> world \<Rightarrow> bool" where
  "calm cfg [] w = True"
| "calm cfg (a # as) w = (allowed cfg a w \<and> calm cfg as (act cfg a w))"

text \<open>
  What holds all along such a run. Neither paddle is above \<open>PADDLE_WIDTH/2\<close>, and the
  field has room for a paddle. A paddle is not below \<open>bottom_row - PADDLE_WIDTH/2\<close>
  unless a resize has set the new size and not yet come to that paddle. A value about
  to be stored is within the bounds, and a paddle about to be moved has room to move.
\<close>

definition world_inv :: "config \<Rightarrow> world \<Rightarrow> bool" where
  "world_inv cfg w =
     (half_paddle cfg \<le> paddle_pos (shared w)
      \<and> half_paddle cfg \<le> ai_paddle_pos (shared w)
      \<and> half_paddle cfg \<le> bottom_row (shared w) - half_paddle cfg
      \<and> (case resizing w of
            No_resize \<Rightarrow>
              paddle_pos (shared w) \<le> bottom_row (shared w) - half_paddle cfg
              \<and> ai_paddle_pos (shared w) \<le> bottom_row (shared w) - half_paddle cfg
          | Sized maxx \<Rightarrow> True
          | Paddle_done maxx \<Rightarrow>
              paddle_pos (shared w) \<le> bottom_row (shared w) - half_paddle cfg
          | Ai_done maxx \<Rightarrow>
              paddle_pos (shared w) \<le> bottom_row (shared w) - half_paddle cfg
              \<and> ai_paddle_pos (shared w) \<le> bottom_row (shared w) - half_paddle cfg)
      \<and> (case ai_new w of
            None \<Rightarrow> True
          | Some n \<Rightarrow> half_paddle cfg \<le> n \<and> n \<le> bottom_row (shared w) - half_paddle cfg)
      \<and> (kbd w = Dec \<longrightarrow> paddle_pos (shared w) > half_paddle cfg)
      \<and> (kbd w = Inc \<longrightarrow> paddle_pos (shared w) < bottom_row (shared w) - half_paddle cfg))"

section \<open>Sample values\<close>

text \<open>
  A configuration and a state on which the theorems below are evaluated: a paddle seven
  rows wide, a field of 21 rows and 80 columns, the blank as play key and \<open>q\<close> as
  quit key, a signed \<open>char\<close>.
\<close>

definition sample_cfg :: config where
  "sample_cfg = \<lparr>PADDLE_WIDTH = 7, FIELD_TOP = 0, MAX_HITCNT = 5, MAX_LEVEL = 3,
     PLAY_KEY = 32, QUIT_KEY = 113, char_signed = True\<rparr>"

definition sample_data :: game_data where
  "sample_data = \<lparr>bottom_row = 20, paddle_col = 79, ai_paddle_col = 0,
     paddle_pos = 10, paddle_pos_old = 10, ai_paddle_pos = 10, ai_paddle_pos_old = 10,
     ball_x = 40, ball_y = 10, ball_x_old = 40, ball_y_old = 10,
     ball_dirx = 1, ball_diry = 1, gameLevel = 0, hitCnt = 0,
     play_flag = 1, exit_flag = 0, termination_flag = 0, haltFlag = 0, winner = 0,
     pipe = []\<rparr>"

section \<open>Facts about the parts of a pass\<close>

lemma c_div_sign: "c_div x (if x = 0 then 1 else \<bar>x\<bar>) = sgn x"
  by (cases "x = 0") (simp_all add: c_div_def sgn_if)

lemma half_sample: "c_div (PADDLE_WIDTH sample_cfg) 2 = 3"
  by (simp add: sample_cfg_def c_div_def)

lemma state_of_wait: "state_of (ball_handler_wait cfg keys d) = d\<lparr>haltFlag := 1\<rparr>"
  by (induction keys arbitrary: d) (simp_all add: Let_def)

lemma wait_not_Returned: "ball_handler_wait cfg keys d \<noteq> Returned s"
  by (induction keys arbitrary: d) (simp_all add: Let_def)

lemma wait_not_Halted: "ball_handler_wait cfg keys d \<noteq> Halted s"
  by (induction keys arbitrary: d) (simp_all add: Let_def)

text \<open>What an accepted hit leaves in the data, whatever becomes of the banner.\<close>

lemma state_of_level:
  "state_of (ball_handler_level cfg keys d) =
     (if hitCnt d \<ge> MAX_HITCNT cfg
      then d\<lparr>gameLevel := gameLevel d + 1, hitCnt := 0,
             haltFlag := (case ball_handler_wait cfg keys (d\<lparr>gameLevel := gameLevel d + 1, hitCnt := 0\<rparr>) of
                            Running _ \<Rightarrow> 0 | _ \<Rightarrow> 1)\<rparr>
      else d\<lparr>hitCnt := hitCnt d + 1\<rparr>)"
proof (cases "hitCnt d \<ge> MAX_HITCNT cfg")
  case False
  then show ?thesis by (simp add: ball_handler_level_def)
next
  case True
  let ?d2 = "d\<lparr>gameLevel := gameLevel d + 1, hitCnt := 0\<rparr>"
  have s: "state_of (ball_handler_wait cfg keys ?d2) = ?d2\<lparr>haltFlag := 1\<rparr>"
    by (rule state_of_wait)
  show ?thesis
    using True s
    by (cases "ball_handler_wait cfg keys ?d2") (simp_all add: ball_handler_level_def Let_def)
qed

lemma level_not_Returned: "ball_handler_level cfg keys d \<noteq> Returned s"
proof (cases "hitCnt d \<ge> MAX_HITCNT cfg")
  case False
  then show ?thesis by (simp add: ball_handler_level_def)
next
  case True
  let ?d2 = "d\<lparr>gameLevel := gameLevel d + 1, hitCnt := 0\<rparr>"
  show ?thesis
    using True wait_not_Returned [of cfg keys ?d2 s]
    by (cases "ball_handler_wait cfg keys ?d2") (simp_all add: ball_handler_level_def Let_def)
qed

lemma level_not_Halted: "ball_handler_level cfg keys d \<noteq> Halted s"
proof (cases "hitCnt d \<ge> MAX_HITCNT cfg")
  case False
  then show ?thesis by (simp add: ball_handler_level_def)
next
  case True
  let ?d2 = "d\<lparr>gameLevel := gameLevel d + 1, hitCnt := 0\<rparr>"
  show ?thesis
    using True wait_not_Halted [of cfg keys ?d2 s]
    by (cases "ball_handler_wait cfg keys ?d2") (simp_all add: ball_handler_level_def Let_def)
qed

lemma player_accepted:
  assumes "ball_x m = paddle_col m"
    and "\<bar>paddle_pos m - ball_y m + ball_diry m\<bar> \<le> c_div (PADDLE_WIDTH cfg) 2"
  shows "ball_handler_player cfg keys m =
     (case ball_handler_level cfg keys (hit_data m) of
        Running d3 \<Rightarrow> (if gameLevel d3 > MAX_LEVEL cfg then ball_handler_out 0 d3 else Running d3)
      | r \<Rightarrow> r)"
  using assms by (simp add: ball_handler_player_def hit_data_def Let_def)

lemma player_missed:
  assumes "ball_x m = paddle_col m"
    and "\<not> \<bar>paddle_pos m - ball_y m + ball_diry m\<bar> \<le> c_div (PADDLE_WIDTH cfg) 2"
  shows "ball_handler_player cfg keys m = ball_handler_out 1 m"
  using assms by (simp add: ball_handler_player_def)

lemma state_of_out:
  "state_of (ball_handler_out w d) = d\<lparr>play_flag := 0, winner := w, pipe := pipe d @ [QUIT_TAG]\<rparr>"
  by (simp add: ball_handler_out_def Let_def)

lemma out_winner_neq: "ball_handler_out 0 a \<noteq> ball_handler_out 1 b"
proof
  assume "ball_handler_out 0 a = ball_handler_out 1 b"
  then have "winner (state_of (ball_handler_out 0 a)) = winner (state_of (ball_handler_out 1 b))"
    by simp
  then show False by (simp add: state_of_out)
qed

lemma player_accepted_fields:
  assumes "ball_x m = paddle_col m"
    and "\<bar>paddle_pos m - ball_y m + ball_diry m\<bar> \<le> c_div (PADDLE_WIDTH cfg) 2"
  shows "ball_dirx (state_of (ball_handler_player cfg keys m)) = - ball_dirx m"
    and "ball_x (state_of (ball_handler_player cfg keys m)) = ball_x m + 2 * (- ball_dirx m)"
    and "gameLevel (state_of (ball_handler_player cfg keys m)) = gameLevel (state_of (ball_handler_level cfg keys (hit_data m)))"
    and "hitCnt (state_of (ball_handler_player cfg keys m)) = hitCnt (state_of (ball_handler_level cfg keys (hit_data m)))"
    and "ball_handler_player cfg keys m \<noteq> ball_handler_out 1 m"
proof -
  let ?l = "ball_handler_level cfg keys (hit_data m)"
  have p: "ball_handler_player cfg keys m =
     (case ?l of
        Running d3 \<Rightarrow> (if gameLevel d3 > MAX_LEVEL cfg then ball_handler_out 0 d3 else Running d3)
      | r \<Rightarrow> r)"
    using assms by (rule player_accepted)
  have s: "ball_dirx (state_of ?l) = - ball_dirx m" "ball_x (state_of ?l) = ball_x m + 2 * (- ball_dirx m)"
    by (simp_all add: state_of_level hit_data_def)
  show "ball_dirx (state_of (ball_handler_player cfg keys m)) = - ball_dirx m"
    using s by (cases ?l) (simp_all add: p state_of_out)
  show "ball_x (state_of (ball_handler_player cfg keys m)) = ball_x m + 2 * (- ball_dirx m)"
    using s by (cases ?l) (simp_all add: p state_of_out)
  show "gameLevel (state_of (ball_handler_player cfg keys m)) = gameLevel (state_of ?l)"
    by (cases ?l) (simp_all add: p state_of_out)
  show "hitCnt (state_of (ball_handler_player cfg keys m)) = hitCnt (state_of ?l)"
    by (cases ?l) (simp_all add: p state_of_out)
  show "ball_handler_player cfg keys m \<noteq> ball_handler_out 1 m"
  proof -
    obtain s where o: "ball_handler_out 1 m = Returned s"
      by (simp add: ball_handler_out_def Let_def)
    have n: "ball_handler_out 0 d3 \<noteq> Returned s" for d3
      using out_winner_neq [of d3 m] by (simp add: o)
    show ?thesis
      unfolding o p
      using n level_not_Returned [of cfg keys "hit_data m" s]
      by (cases ?l) simp_all
  qed
qed

lemma out_not_Running: "ball_handler_out w d \<noteq> Running s"
  by (simp add: ball_handler_out_def Let_def)

lemma player_Running_pipe:
  "ball_handler_player cfg keys m = Running d1 \<Longrightarrow> pipe d1 = pipe m"
proof (cases "ball_x m = paddle_col m")
  case False
  assume "ball_handler_player cfg keys m = Running d1"
  with False show ?thesis by (simp add: ball_handler_player_def)
next
  case True
  assume r: "ball_handler_player cfg keys m = Running d1"
  show ?thesis
  proof (cases "\<bar>paddle_pos m - ball_y m + ball_diry m\<bar> \<le> c_div (PADDLE_WIDTH cfg) 2")
    case False
    with True r show ?thesis
      using player_missed [of m cfg keys] by (simp add: out_not_Running)
  next
    case a: True
    let ?l = "ball_handler_level cfg keys (hit_data m)"
    have p: "pipe (state_of ?l) = pipe m"
      by (simp add: state_of_level hit_data_def)
    from r show ?thesis
      unfolding player_accepted [OF True a]
      using p
      by (cases ?l) (auto simp add: out_not_Running split: if_splits)
  qed
qed


lemma player_paddles:
  "paddle_pos (state_of (ball_handler_player cfg keys m)) = paddle_pos m
   \<and> ai_paddle_pos (state_of (ball_handler_player cfg keys m)) = ai_paddle_pos m
   \<and> bottom_row (state_of (ball_handler_player cfg keys m)) = bottom_row m"
proof (cases "ball_x m = paddle_col m")
  case False
  then show ?thesis by (simp add: ball_handler_player_def)
next
  case True
  show ?thesis
  proof (cases "\<bar>paddle_pos m - ball_y m + ball_diry m\<bar> \<le> c_div (PADDLE_WIDTH cfg) 2")
    case False
    then show ?thesis
      using True by (simp add: player_missed state_of_out)
  next
    case a: True
    let ?l = "ball_handler_level cfg keys (hit_data m)"
    have l: "paddle_pos (state_of ?l) = paddle_pos m"
      "ai_paddle_pos (state_of ?l) = ai_paddle_pos m"
      "bottom_row (state_of ?l) = bottom_row m"
      by (simp_all add: state_of_level hit_data_def)
    show ?thesis
      unfolding player_accepted [OF True a]
      using l by (cases ?l) (simp_all add: state_of_out)
  qed
qed

lemma ai_paddles:
  "paddle_pos (state_of (ball_handler_ai cfg d)) = paddle_pos d
   \<and> ai_paddle_pos (state_of (ball_handler_ai cfg d)) = ai_paddle_pos d
   \<and> bottom_row (state_of (ball_handler_ai cfg d)) = bottom_row d"
  by (simp add: ball_handler_ai_def state_of_out Let_def)

lemma player_counts:
  "gameLevel (state_of (ball_handler_player cfg keys m))
     = (if player_hit cfg m \<and> hitCnt m \<ge> MAX_HITCNT cfg then gameLevel m + 1 else gameLevel m)
   \<and> hitCnt (state_of (ball_handler_player cfg keys m))
     = (if player_hit cfg m then (if hitCnt m \<ge> MAX_HITCNT cfg then 0 else hitCnt m + 1)
        else hitCnt m)"
proof (cases "ball_x m = paddle_col m")
  case False
  then show ?thesis by (simp add: ball_handler_player_def player_hit_def)
next
  case True
  show ?thesis
  proof (cases "\<bar>paddle_pos m - ball_y m + ball_diry m\<bar> \<le> c_div (PADDLE_WIDTH cfg) 2")
    case False
    then show ?thesis
      using True by (simp add: player_missed state_of_out player_hit_def)
  next
    case a: True
    then have h: "player_hit cfg m" using True by (simp add: player_hit_def)
    show ?thesis
      using player_accepted_fields(3,4) [OF True a, of keys] h
      by (simp add: state_of_level hit_data_def)
  qed
qed

lemma ai_counts:
  "gameLevel (state_of (ball_handler_ai cfg d)) = gameLevel d
   \<and> hitCnt (state_of (ball_handler_ai cfg d)) = hitCnt d"
  by (simp add: ball_handler_ai_def state_of_out Let_def)

lemma body_counts:
  assumes "haltFlag d = 0"
  shows "gameLevel (state_of (ball_handler_body cfg keys d))
           = gameLevel (state_of (ball_handler_player cfg keys (ball_handler_wall cfg (ball_handler_move d))))
       \<and> hitCnt (state_of (ball_handler_body cfg keys d))
           = hitCnt (state_of (ball_handler_player cfg keys (ball_handler_wall cfg (ball_handler_move d))))"
proof -
  let ?p = "ball_handler_player cfg keys (ball_handler_wall cfg (ball_handler_move d))"
  show ?thesis
  proof (cases ?p)
    case (Running d1)
    show ?thesis
      using assms Running ai_counts [of cfg d1]
      by (cases "ball_handler_ai cfg d1") (simp_all add: ball_handler_body_def)
  qed (use assms in \<open>simp_all add: ball_handler_body_def\<close>)
qed

lemma c_char_sample: "c_char sample_cfg k = (k + 128) mod 256 - 128"
  by (simp add: c_char_def sample_cfg_def)

lemma wait_blank:
  assumes "\<forall>x \<in> set pre. c_char cfg x \<noteq> QUIT_KEY cfg \<and> c_char cfg x \<noteq> 32"
    and "c_char cfg k = 32" and "QUIT_KEY cfg \<noteq> 32"
  shows "ball_handler_wait cfg (pre @ k # rest) d = Running (d\<lparr>haltFlag := 1\<rparr>)"
  using assms by (induction pre arbitrary: d) (simp_all add: Let_def)

lemma wait_quit:
  assumes "\<forall>x \<in> set pre. c_char cfg x \<noteq> QUIT_KEY cfg \<and> c_char cfg x \<noteq> 32"
    and "c_char cfg k = QUIT_KEY cfg"
  shows "ball_handler_wait cfg (pre @ k # rest) d = Exited (d\<lparr>haltFlag := 1\<rparr>)"
  using assms by (induction pre arbitrary: d) (simp_all add: Let_def)

lemma body_player_hit:
  assumes "haltFlag d = 0"
    and "player_hit cfg (ball_handler_wall cfg (ball_handler_move d))"
  shows "ball_handler_body cfg keys d =
     (case (case ball_handler_level cfg keys (hit_data (ball_handler_wall cfg (ball_handler_move d))) of
              Running d3 \<Rightarrow> (if gameLevel d3 > MAX_LEVEL cfg then ball_handler_out 0 d3 else Running d3)
            | r \<Rightarrow> r) of
        Running d1 \<Rightarrow>
          (case ball_handler_ai cfg d1 of
             Running d2 \<Rightarrow> Running (d2\<lparr>pipe := pipe d2 @ [BALL_TAG]\<rparr>)
           | r \<Rightarrow> r)
      | r \<Rightarrow> r)"
proof -
  let ?m = "ball_handler_wall cfg (ball_handler_move d)"
  have "ball_x ?m = paddle_col ?m"
    and "\<bar>paddle_pos ?m - ball_y ?m + ball_diry ?m\<bar> \<le> c_div (PADDLE_WIDTH cfg) 2"
    using assms(2) by (simp_all add: player_hit_def)
  then show ?thesis
    using assms(1) by (simp add: ball_handler_body_def player_accepted)
qed

text \<open>Taken one after the other, the steps of a thread make its pass.\<close>

lemma resize_handler_parts:
  "resize_handler_ball maxx (resize_handler_ai_paddle cfg
     (resize_handler_paddle cfg (resize_handler_size maxy maxx d)))
   = resize_handler cfg maxy maxx d"
  by (simp add: resize_handler_def resize_handler_size_def resize_handler_paddle_def
      resize_handler_ai_paddle_def resize_handler_ball_def Let_def)

lemma resize_steps:
  assumes "resizing w = No_resize"
  shows "acts cfg [Resize_size maxy maxx, Resize_paddle, Resize_ai, Resize_ball] w
       = w\<lparr>shared := resize_handler cfg maxy maxx (shared w)\<rparr>"
  using assms by (simp add: resize_handler_parts)

lemma ai_test_store:
  assumes "ai_new w = None"
  shows "shared (acts cfg [Ai_test, Ai_store] w) = state_of (ai_handler_body cfg (shared w))"
  using assms by (simp add: ai_handler_body_def ai_handler_move_def Let_def)

lemma kbd_test_store:
  assumes "kbd w = Idle"
  shows "shared (acts cfg [Kbd_test ch mouse, Kbd_store] w)
       = state_of (keyboard_handler_body cfg ch mouse (shared w))"
  using assms by (simp add: keyboard_handler_body_def keyboard_handler_switch_def Let_def)

text \<open>Each step of a calm run keeps what holds along it.\<close>

lemma act_kbd_test_inv:
  assumes "world_inv cfg w" and "allowed cfg (Kbd_test ch mouse) w"
  shows "world_inv cfg (act cfg (Kbd_test ch mouse) w)"
  using assms
  by (auto simp add: world_inv_def half_paddle_def Let_def
      keyboard_handler_switch_def split: option.splits resize_pc.splits)

lemma act_kbd_store_inv:
  assumes "world_inv cfg w"
  shows "world_inv cfg (act cfg Kbd_store w)"
  using assms
  by (cases "kbd w")
    (auto simp add: world_inv_def half_paddle_def Let_def
      split: option.splits resize_pc.splits)

lemma act_ai_test_inv:
  assumes "world_inv cfg w"
  shows "world_inv cfg (act cfg Ai_test w)"
  using assms
  by (auto simp add: world_inv_def half_paddle_def Let_def
      split: option.splits resize_pc.splits)

lemma act_ai_store_inv:
  assumes "world_inv cfg w"
  shows "world_inv cfg (act cfg Ai_store w)"
  using assms
  by (cases "ai_new w")
    (auto simp add: world_inv_def half_paddle_def Let_def split: resize_pc.splits)

lemma frame_inv:
  assumes "world_inv cfg w"
    and "paddle_pos d = paddle_pos (shared w)"
    and "ai_paddle_pos d = ai_paddle_pos (shared w)"
    and "bottom_row d = bottom_row (shared w)"
  shows "world_inv cfg (w\<lparr>shared := d\<rparr>)"
  using assms
  by (auto simp add: world_inv_def split: option.splits resize_pc.splits)

lemma act_resize_size_inv:
  assumes "world_inv cfg w" and "allowed cfg (Resize_size maxy maxx) w"
  shows "world_inv cfg (act cfg (Resize_size maxy maxx) w)"
  using assms
  by (cases "resizing w")
    (simp_all add: world_inv_def resize_handler_size_def Let_def)

lemma act_resize_paddle_inv:
  assumes "world_inv cfg w" and "allowed cfg Resize_paddle w"
  shows "world_inv cfg (act cfg Resize_paddle w)"
  using assms
  by (cases "resizing w")
    (auto simp add: world_inv_def resize_handler_paddle_def half_paddle_def MAX_macro_def)

lemma act_resize_ai_inv:
  assumes "world_inv cfg w" and "allowed cfg Resize_ai w"
  shows "world_inv cfg (act cfg Resize_ai w)"
  using assms
  by (cases "resizing w")
    (auto simp add: world_inv_def resize_handler_ai_paddle_def half_paddle_def MAX_macro_def)

lemma act_resize_ball_inv:
  assumes "world_inv cfg w" and "allowed cfg Resize_ball w"
  shows "world_inv cfg (act cfg Resize_ball w)"
  using assms
  by (cases "resizing w")
    (auto simp add: world_inv_def resize_handler_ball_def Let_def)

lemma act_inv:
  assumes "world_inv cfg w" and "allowed cfg a w"
  shows "world_inv cfg (act cfg a w)"
proof (cases a)
  case (Kbd_test ch mouse)
  then show ?thesis using assms act_kbd_test_inv by simp
next
  case Kbd_store
  then show ?thesis using assms(1) act_kbd_store_inv by simp
next
  case Ai_test
  then show ?thesis using assms(1) act_ai_test_inv by simp
next
  case Ai_store
  then show ?thesis using assms(1) act_ai_store_inv by simp
next
  case Ball_move
  then show ?thesis
    using frame_inv [OF assms(1), of "ball_handler_move (shared w)"]
    by (simp add: ball_handler_move_def Let_def)
next
  case Ball_wall
  then show ?thesis
    using frame_inv [OF assms(1), of "ball_handler_wall cfg (shared w)"]
    by (simp add: ball_handler_wall_def Let_def)
next
  case (Ball_player keys)
  then show ?thesis
    using frame_inv [OF assms(1), of "state_of (ball_handler_player cfg keys (shared w))"]
      player_paddles [of cfg keys "shared w"]
    by simp
next
  case Ball_ai
  then show ?thesis
    using frame_inv [OF assms(1), of "state_of (ball_handler_ai cfg (shared w))"]
      ai_paddles [of cfg "shared w"]
    by simp
next
  case Ball_tag
  then show ?thesis
    using frame_inv [OF assms(1), of "(shared w)\<lparr>pipe := pipe (shared w) @ [BALL_TAG]\<rparr>"]
    by simp
next
  case (Resize_size maxy maxx)
  then show ?thesis using assms act_resize_size_inv by simp
next
  case Resize_paddle
  then show ?thesis using assms act_resize_paddle_inv by simp
next
  case Resize_ai
  then show ?thesis using assms act_resize_ai_inv by simp
next
  case Resize_ball
  then show ?thesis using assms act_resize_ball_inv by simp
qed

lemma acts_inv:
  assumes "world_inv cfg w" and "calm cfg as w"
  shows "world_inv cfg (acts cfg as w)"
  using assms
proof (induction as arbitrary: w)
  case Nil
  then show ?case by simp
next
  case (Cons a as)
  then show ?case using act_inv [of cfg w a] by simp
qed

lemma calm_take:
  assumes "calm cfg as w"
  shows "calm cfg (take n as) w"
  using assms
proof (induction as arbitrary: w n)
  case Nil
  then show ?case by simp
next
  case (Cons a as)
  then show ?case by (cases n) simp_all
qed

lemma resize_short_field:
  assumes "paddles_in_bounds cfg d" and "maxy - 1 - half_paddle cfg < half_paddle cfg"
  shows "paddle_pos (resize_handler cfg maxy maxx d) = half_paddle cfg
       \<and> ai_paddle_pos (resize_handler cfg maxy maxx d) = half_paddle cfg
       \<and> bottom_row (resize_handler cfg maxy maxx d) - half_paddle cfg < half_paddle cfg"
  using assms
  by (simp add: paddles_in_bounds_def resize_handler_def half_paddle_def MAX_macro_def Let_def)

section \<open>The hit on the player's paddle\<close>

text \<open>
  Claim C1. When the ball is in the column of the player's paddle, the hit is accepted
  (the pass does not end the round for the AI) exactly when
  \<open>|paddle_pos - ball_y + ball_diry| \<le> PADDLE_WIDTH / 2\<close>; two states that agree
  on \<open>paddle_pos\<close>, \<open>ball_y\<close> and \<open>ball_diry\<close> agree on acceptance; on an
  accepted hit \<open>ball_dirx\<close> is negated and \<open>ball_x\<close> is moved by twice the new
  \<open>ball_dirx\<close>.
\<close>

theorem player_hit_acceptance:
  assumes "ball_x m = paddle_col m"
  shows "((ball_handler_player cfg keys m \<noteq> ball_handler_out 1 m)
            = (\<bar>paddle_pos m - ball_y m + ball_diry m\<bar> \<le> half_paddle cfg))
       \<and> (\<bar>paddle_pos m - ball_y m + ball_diry m\<bar> \<le> half_paddle cfg \<longrightarrow>
            ball_dirx (state_of (ball_handler_player cfg keys m)) = - ball_dirx m
          \<and> ball_x (state_of (ball_handler_player cfg keys m))
              = ball_x m + 2 * ball_dirx (state_of (ball_handler_player cfg keys m)))
       \<and> (\<forall>m' keys'. ball_x m' = paddle_col m' \<and> paddle_pos m' = paddle_pos m
              \<and> ball_y m' = ball_y m \<and> ball_diry m' = ball_diry m \<longrightarrow>
            (ball_handler_player cfg keys' m' \<noteq> ball_handler_out 1 m')
              = (ball_handler_player cfg keys m \<noteq> ball_handler_out 1 m))"
proof -
  have iff: "(ball_handler_player cfg ks n \<noteq> ball_handler_out 1 n)
            = (\<bar>paddle_pos n - ball_y n + ball_diry n\<bar> \<le> half_paddle cfg)"
    if "ball_x n = paddle_col n" for ks n
  proof (cases "\<bar>paddle_pos n - ball_y n + ball_diry n\<bar> \<le> c_div (PADDLE_WIDTH cfg) 2")
    case True
    with that show ?thesis
      using player_accepted_fields(5) [of n cfg ks] by (simp add: half_paddle_def)
  next
    case False
    with that show ?thesis
      using player_missed [of n cfg ks] by (simp add: half_paddle_def)
  qed
  have flip: "ball_dirx (state_of (ball_handler_player cfg keys m)) = - ball_dirx m
          \<and> ball_x (state_of (ball_handler_player cfg keys m))
              = ball_x m + 2 * ball_dirx (state_of (ball_handler_player cfg keys m))"
    if "\<bar>paddle_pos m - ball_y m + ball_diry m\<bar> \<le> half_paddle cfg"
    using that assms player_accepted_fields(1,2) [of m cfg keys]
    by (simp add: half_paddle_def)
  show ?thesis
    using iff [OF assms] flip iff by simp
qed

theorem player_hit_acceptance_witness:
  "ball_x (sample_data\<lparr>ball_x := 79\<rparr>) = paddle_col (sample_data\<lparr>ball_x := 79\<rparr>)
   \<and> \<bar>paddle_pos (sample_data\<lparr>ball_x := 79\<rparr>) - ball_y (sample_data\<lparr>ball_x := 79\<rparr>)
        + ball_diry (sample_data\<lparr>ball_x := 79\<rparr>)\<bar> \<le> half_paddle sample_cfg
   \<and> ball_handler_player sample_cfg [] (sample_data\<lparr>ball_x := 79\<rparr>)
        \<noteq> ball_handler_out 1 (sample_data\<lparr>ball_x := 79\<rparr>)
   \<and> ball_dirx (state_of (ball_handler_player sample_cfg [] (sample_data\<lparr>ball_x := 79\<rparr>))) = - 1
   \<and> ball_x (state_of (ball_handler_player sample_cfg [] (sample_data\<lparr>ball_x := 79\<rparr>))) = 77
   \<and> hitCnt (state_of (ball_handler_player sample_cfg [] (sample_data\<lparr>ball_x := 79\<rparr>))) = 1"
proof -
  let ?m = "sample_data\<lparr>ball_x := 79\<rparr>"
  have h: "ball_x ?m = paddle_col ?m" by (simp add: sample_data_def)
  have a: "\<bar>paddle_pos ?m - ball_y ?m + ball_diry ?m\<bar> \<le> half_paddle sample_cfg"
    by (simp add: sample_data_def half_paddle_def half_sample)
  have c: "hitCnt (state_of (ball_handler_player sample_cfg [] ?m)) = 1"
    by (simp add: ball_handler_player_def ball_handler_level_def half_sample Let_def
        sample_data_def) (simp add: sample_cfg_def)
  show ?thesis
    using player_hit_acceptance [OF h, of sample_cfg "[]"] h a c
    by (simp add: sample_data_def)
qed

section \<open>Counting hits and the change of level\<close>

text \<open>
  Claim C2, as the code has it. The test \<open>hitCnt >= MAX_HITCNT\<close> comes before the
  increment, so a pass changes the level exactly when it has an accepted hit on the
  player's paddle that finds \<open>hitCnt\<close> already at \<open>MAX_HITCNT\<close> (or above): then
  \<open>gameLevel\<close> grows by one and \<open>hitCnt\<close> is set to 0 at once, whatever becomes of
  the banner. Any other accepted hit leaves \<open>gameLevel\<close> alone and adds one to
  \<open>hitCnt\<close>; a pass without an accepted hit changes neither. In particular the hit
  that finds \<open>hitCnt = MAX_HITCNT - 1\<close> brings it to \<open>MAX_HITCNT\<close> without a change
  of level.
\<close>

theorem level_up_on_full_count:
  assumes "haltFlag d = 0"
  shows "(player_hit cfg (ball_handler_wall cfg (ball_handler_move d)) \<and> hitCnt d \<ge> MAX_HITCNT cfg \<longrightarrow>
            gameLevel (state_of (ball_handler_body cfg keys d)) = gameLevel d + 1
          \<and> hitCnt (state_of (ball_handler_body cfg keys d)) = 0)
       \<and> (player_hit cfg (ball_handler_wall cfg (ball_handler_move d)) \<and> hitCnt d < MAX_HITCNT cfg \<longrightarrow>
            gameLevel (state_of (ball_handler_body cfg keys d)) = gameLevel d
          \<and> hitCnt (state_of (ball_handler_body cfg keys d)) = hitCnt d + 1)
       \<and> (\<not> player_hit cfg (ball_handler_wall cfg (ball_handler_move d)) \<longrightarrow>
            gameLevel (state_of (ball_handler_body cfg keys d)) = gameLevel d
          \<and> hitCnt (state_of (ball_handler_body cfg keys d)) = hitCnt d)
       \<and> (player_hit cfg (ball_handler_wall cfg (ball_handler_move d)) \<and> hitCnt d = MAX_HITCNT cfg - 1 \<longrightarrow>
            gameLevel (state_of (ball_handler_body cfg keys d)) = gameLevel d
          \<and> hitCnt (state_of (ball_handler_body cfg keys d)) = MAX_HITCNT cfg)"
proof -
  let ?m = "ball_handler_wall cfg (ball_handler_move d)"
  have m: "gameLevel ?m = gameLevel d" "hitCnt ?m = hitCnt d"
    by (simp_all add: ball_handler_wall_def ball_handler_move_def Let_def)
  show ?thesis
    using body_counts [OF assms, of cfg keys] player_counts [of cfg keys ?m]
    by (simp add: m)
qed

theorem level_up_on_full_count_witness:
  "haltFlag (sample_data\<lparr>ball_x := 78, ball_y := 9, hitCnt := 5\<rparr>) = 0
   \<and> player_hit sample_cfg (ball_handler_wall sample_cfg
        (ball_handler_move (sample_data\<lparr>ball_x := 78, ball_y := 9, hitCnt := 5\<rparr>)))
   \<and> hitCnt (sample_data\<lparr>ball_x := 78, ball_y := 9, hitCnt := 5\<rparr>) \<ge> MAX_HITCNT sample_cfg
   \<and> gameLevel (state_of (ball_handler_body sample_cfg [32]
        (sample_data\<lparr>ball_x := 78, ball_y := 9, hitCnt := 5\<rparr>))) = 1
   \<and> hitCnt (state_of (ball_handler_body sample_cfg [32]
        (sample_data\<lparr>ball_x := 78, ball_y := 9, hitCnt := 5\<rparr>))) = 0
   \<and> \<not> player_hit sample_cfg (ball_handler_wall sample_cfg (ball_handler_move sample_data))
   \<and> hitCnt (state_of (ball_handler_body sample_cfg [] sample_data)) = 0
   \<and> gameLevel (state_of (ball_handler_body sample_cfg [] sample_data)) = 0"
proof -
  let ?d = "sample_data\<lparr>ball_x := 78, ball_y := 9, hitCnt := 5\<rparr>"
  have 1: "haltFlag ?d = 0" "haltFlag sample_data = 0" by (simp_all add: sample_data_def)
  have 2: "player_hit sample_cfg (ball_handler_wall sample_cfg (ball_handler_move ?d))"
    by (simp add: player_hit_def ball_handler_wall_def ball_handler_move_def half_sample Let_def
        sample_data_def)
  have 3: "hitCnt ?d \<ge> MAX_HITCNT sample_cfg" "gameLevel ?d = 0"
    "hitCnt sample_data = 0" "gameLevel sample_data = 0"
    by (simp_all add: sample_data_def sample_cfg_def)
  have 4: "\<not> player_hit sample_cfg (ball_handler_wall sample_cfg (ball_handler_move sample_data))"
    by (simp add: player_hit_def ball_handler_wall_def ball_handler_move_def half_sample Let_def
        sample_data_def)
  show ?thesis
    using level_up_on_full_count [OF 1(1), of sample_cfg "[32]"]
      level_up_on_full_count [OF 1(2), of sample_cfg "[]"] 1 2 3 4
    by simp
qed

text \<open>
  With \<open>MAX_HITCNT = 5\<close> and \<open>hitCnt = 4\<close>, one more accepted hit leaves the level
  where it was and the count at 5, not at 0.
\<close>

theorem level_up_counterexample:
  "haltFlag (sample_data\<lparr>ball_x := 78, ball_y := 9, hitCnt := 4\<rparr>) = 0
   \<and> hitCnt (sample_data\<lparr>ball_x := 78, ball_y := 9, hitCnt := 4\<rparr>) = MAX_HITCNT sample_cfg - 1
   \<and> player_hit sample_cfg (ball_handler_wall sample_cfg
        (ball_handler_move (sample_data\<lparr>ball_x := 78, ball_y := 9, hitCnt := 4\<rparr>)))
   \<and> ball_handler_body sample_cfg [32] (sample_data\<lparr>ball_x := 78, ball_y := 9, hitCnt := 4\<rparr>)
       = Running (sample_data\<lparr>ball_x := 77, ball_y := 10, ball_x_old := 78, ball_y_old := 9,
           ball_dirx := - 1, hitCnt := 5, pipe := [BALL_TAG]\<rparr>)
   \<and> gameLevel (sample_data\<lparr>ball_x := 77, ball_y := 10, ball_x_old := 78, ball_y_old := 9,
           ball_dirx := - 1, hitCnt := 5, pipe := [BALL_TAG]\<rparr>)
       = gameLevel (sample_data\<lparr>ball_x := 78, ball_y := 9, hitCnt := 4\<rparr>)
   \<and> hitCnt (sample_data\<lparr>ball_x := 77, ball_y := 10, ball_x_old := 78, ball_y_old := 9,
           ball_dirx := - 1, hitCnt := 5, pipe := [BALL_TAG]\<rparr>) = 5"
proof -
  let ?d = "sample_data\<lparr>ball_x := 78, ball_y := 9, hitCnt := 4\<rparr>"
  let ?m = "sample_data\<lparr>ball_x := 79, ball_y := 10, hitCnt := 4, ball_x_old := 78, ball_y_old := 9\<rparr>"
  have m: "ball_handler_wall sample_cfg (ball_handler_move ?d) = ?m"
    by (simp add: ball_handler_wall_def ball_handler_move_def Let_def sample_data_def sample_cfg_def)
  have h: "player_hit sample_cfg ?m"
    by (simp add: player_hit_def half_sample sample_data_def)
  have p: "ball_handler_player sample_cfg [32] ?m
      = Running (sample_data\<lparr>ball_x := 77, ball_y := 10, ball_x_old := 78, ball_y_old := 9,
           ball_dirx := - 1, hitCnt := 5\<rparr>)"
    by (simp add: ball_handler_player_def ball_handler_level_def half_sample Let_def
        sample_data_def) (simp add: sample_cfg_def)
  have b: "ball_handler_body sample_cfg [32] ?d
       = Running (sample_data\<lparr>ball_x := 77, ball_y := 10, ball_x_old := 78, ball_y_old := 9,
           ball_dirx := - 1, hitCnt := 5, pipe := [BALL_TAG]\<rparr>)"
    unfolding ball_handler_body_def m p
    by (simp add: ball_handler_ai_def sample_data_def)
  show ?thesis
    unfolding m b using h by (simp add: sample_data_def sample_cfg_def)
qed

section \<open>The walls\<close>

text \<open>
  Claim C4, as the code has it. A step with velocity 1 or -1 that takes the ball from a
  row inside the field to a row outside it leaves the ball one row beyond the wall it
  crossed; after the correction \<open>ball_diry\<close> is negated and the ball is one row inside
  that wall. With \<open>bottom_row = 20\<close> the ball in row 21 with \<open>ball_diry = 1\<close> ends in
  row 19 with \<open>ball_diry = -1\<close>.
\<close>

theorem wall_reflection_exact:
  assumes "FIELD_TOP cfg \<le> ball_y d" and "ball_y d \<le> bottom_row d"
    and "ball_diry d = 1 \<or> ball_diry d = - 1"
    and "ball_y (ball_handler_move d) < FIELD_TOP cfg
       \<or> ball_y (ball_handler_move d) > bottom_row (ball_handler_move d)"
  shows "ball_diry (ball_handler_wall cfg (ball_handler_move d)) = - ball_diry d
       \<and> (ball_diry d = 1 \<longrightarrow>
            ball_y (ball_handler_move d) = bottom_row d + 1
          \<and> ball_y (ball_handler_wall cfg (ball_handler_move d)) = bottom_row d - 1)
       \<and> (ball_diry d = - 1 \<longrightarrow>
            ball_y (ball_handler_move d) = FIELD_TOP cfg - 1
          \<and> ball_y (ball_handler_wall cfg (ball_handler_move d)) = FIELD_TOP cfg + 1)
       \<and> bottom_row (ball_handler_wall cfg (ball_handler_move d)) = bottom_row d"
proof -
  have mv: "ball_y (ball_handler_move d) = ball_y d + ball_diry d"
    "bottom_row (ball_handler_move d) = bottom_row d"
    "ball_diry (ball_handler_move d) = ball_diry d"
    by (simp_all add: ball_handler_move_def Let_def)
  have out: "ball_y d + ball_diry d < FIELD_TOP cfg \<or> ball_y d + ball_diry d > bottom_row d"
    using assms(4) by (simp add: mv)
  have w: "ball_handler_wall cfg (ball_handler_move d)
         = (ball_handler_move d)\<lparr>ball_diry := - ball_diry d,
              ball_y := ball_y d + ball_diry d + 2 * (- ball_diry d)\<rparr>"
    using out by (simp add: ball_handler_wall_def mv Let_def)
  show ?thesis
    using assms(1,2,3) out by (auto simp add: w mv)
qed

theorem wall_reflection_exact_witness:
  "FIELD_TOP sample_cfg \<le> ball_y (sample_data\<lparr>ball_y := 20\<rparr>)
   \<and> ball_y (sample_data\<lparr>ball_y := 20\<rparr>) \<le> bottom_row (sample_data\<lparr>ball_y := 20\<rparr>)
   \<and> bottom_row (sample_data\<lparr>ball_y := 20\<rparr>) = 20
   \<and> ball_diry (sample_data\<lparr>ball_y := 20\<rparr>) = 1
   \<and> ball_y (ball_handler_move (sample_data\<lparr>ball_y := 20\<rparr>)) = 21
   \<and> ball_y (ball_handler_wall sample_cfg (ball_handler_move (sample_data\<lparr>ball_y := 20\<rparr>))) = 19
   \<and> ball_diry (ball_handler_wall sample_cfg (ball_handler_move (sample_data\<lparr>ball_y := 20\<rparr>))) = - 1"
proof -
  let ?d = "sample_data\<lparr>ball_y := 20\<rparr>"
  have 1: "FIELD_TOP sample_cfg \<le> ball_y ?d" by (simp add: sample_cfg_def sample_data_def)
  have 2: "ball_y ?d \<le> bottom_row ?d" by (simp add: sample_data_def)
  have 3: "ball_diry ?d = 1 \<or> ball_diry ?d = - 1" by (simp add: sample_data_def)
  have 4: "ball_y (ball_handler_move ?d) < FIELD_TOP sample_cfg
       \<or> ball_y (ball_handler_move ?d) > bottom_row (ball_handler_move ?d)"
    by (simp add: ball_handler_move_def Let_def sample_data_def)
  have 5: "ball_diry ?d = 1" "bottom_row ?d = 20" by (simp_all add: sample_data_def)
  show ?thesis
    using wall_reflection_exact [OF 1 2 3 4] 1 2 5 by simp
qed

text \<open>
  A ball that is outside the field before the step is not sent back. A resize to 44
  columns with the ball in column 50 puts the ball in row 22, below \<open>bottom_row = 20\<close>;
  with \<open>ball_diry = -1\<close> the next step leaves it in row 21, one row outside, and the
  correction takes it to row 23.
\<close>

theorem wall_reflection_counterexample:
  "ball_y (sample_data\<lparr>ball_x := 50, ball_diry := - 1\<rparr>) = 10
   \<and> bottom_row (resize_handler sample_cfg 21 44 (sample_data\<lparr>ball_x := 50, ball_diry := - 1\<rparr>)) = 20
   \<and> ball_y (resize_handler sample_cfg 21 44 (sample_data\<lparr>ball_x := 50, ball_diry := - 1\<rparr>)) = 22
   \<and> ball_y (ball_handler_move
        (resize_handler sample_cfg 21 44 (sample_data\<lparr>ball_x := 50, ball_diry := - 1\<rparr>))) = 21
   \<and> ball_y (ball_handler_wall sample_cfg (ball_handler_move
        (resize_handler sample_cfg 21 44 (sample_data\<lparr>ball_x := 50, ball_diry := - 1\<rparr>)))) = 23
   \<and> ball_diry (ball_handler_wall sample_cfg (ball_handler_move
        (resize_handler sample_cfg 21 44 (sample_data\<lparr>ball_x := 50, ball_diry := - 1\<rparr>)))) = 1"
proof -
  have c: "c_div 44 2 = 22" by (simp add: c_div_def)
  have r: "resize_handler sample_cfg 21 44 (sample_data\<lparr>ball_x := 50, ball_diry := - 1\<rparr>)
      = sample_data\<lparr>ball_x := 50, ball_diry := - 1, ball_y := 22, paddle_col := 43\<rparr>"
    by (simp add: resize_handler_def MAX_macro_def half_sample Let_def sample_data_def c)
  show ?thesis
    unfolding r
    by (simp add: ball_handler_wall_def ball_handler_move_def Let_def sample_data_def sample_cfg_def)
qed

section \<open>The end of a round\<close>

text \<open>
  Claim C5. A pass in which the ball reaches the column of the player's paddle and is
  missed returns with \<open>play_flag = 0\<close>, \<open>winner = 1\<close> (the AI) and exactly one
  \<open>QUIT_TAG\<close> more in the pipe; a pass in which it reaches the column of the AI's paddle
  and is missed returns with \<open>play_flag = 0\<close>, \<open>winner = 0\<close> (the player) and exactly
  one \<open>QUIT_TAG\<close> more in the pipe. In both cases the loop of the worker ends with
  that pass, whatever passes were to follow. \<open>winner\<close> is one field, so it holds one
  of the two values.
\<close>

theorem missed_hit_ends_round:
  "(haltFlag d = 0
      \<and> ball_x (ball_handler_wall cfg (ball_handler_move d))
          = paddle_col (ball_handler_wall cfg (ball_handler_move d))
      \<and> \<not> \<bar>paddle_pos (ball_handler_wall cfg (ball_handler_move d))
            - ball_y (ball_handler_wall cfg (ball_handler_move d))
            + ball_diry (ball_handler_wall cfg (ball_handler_move d))\<bar> \<le> half_paddle cfg
    \<longrightarrow> ball_handler_body cfg keys d
          = Returned ((ball_handler_wall cfg (ball_handler_move d))
              \<lparr>play_flag := 0, winner := 1, pipe := pipe d @ [QUIT_TAG]\<rparr>)
        \<and> ball_handler_loop cfg (keys # kss) d
          = Returned ((ball_handler_wall cfg (ball_handler_move d))
              \<lparr>play_flag := 0, winner := 1, pipe := pipe d @ [QUIT_TAG]\<rparr>))
   \<and> (haltFlag d = 0
      \<and> ball_handler_player cfg keys (ball_handler_wall cfg (ball_handler_move d)) = Running d1
      \<and> ball_x d1 = ai_paddle_col d1
      \<and> \<not> \<bar>ai_paddle_pos d1 - ball_y d1 + ball_diry d1\<bar> \<le> half_paddle cfg
    \<longrightarrow> ball_handler_body cfg keys d
          = Returned (d1\<lparr>play_flag := 0, winner := 0, pipe := pipe d @ [QUIT_TAG]\<rparr>)
        \<and> ball_handler_loop cfg (keys # kss) d
          = Returned (d1\<lparr>play_flag := 0, winner := 0, pipe := pipe d @ [QUIT_TAG]\<rparr>))"
proof -
  let ?m = "ball_handler_wall cfg (ball_handler_move d)"
  have pm: "pipe ?m = pipe d"
    by (simp add: ball_handler_wall_def ball_handler_move_def Let_def)
  have human: "ball_handler_body cfg keys d
          = Returned (?m\<lparr>play_flag := 0, winner := 1, pipe := pipe d @ [QUIT_TAG]\<rparr>)"
    if "haltFlag d = 0" "ball_x ?m = paddle_col ?m"
      "\<not> \<bar>paddle_pos ?m - ball_y ?m + ball_diry ?m\<bar> \<le> half_paddle cfg"
  proof -
    have "ball_handler_player cfg keys ?m = ball_handler_out 1 ?m"
      using that by (simp add: player_missed half_paddle_def)
    then show ?thesis
      using that(1) by (simp add: ball_handler_body_def ball_handler_out_def Let_def pm)
  qed
  have ai: "ball_handler_body cfg keys d
          = Returned (d1\<lparr>play_flag := 0, winner := 0, pipe := pipe d @ [QUIT_TAG]\<rparr>)"
    if "haltFlag d = 0" "ball_handler_player cfg keys ?m = Running d1"
      "ball_x d1 = ai_paddle_col d1"
      "\<not> \<bar>ai_paddle_pos d1 - ball_y d1 + ball_diry d1\<bar> \<le> half_paddle cfg"
  proof -
    have "pipe d1 = pipe d"
      using player_Running_pipe [OF that(2)] pm by simp
    moreover have "ball_handler_ai cfg d1 = ball_handler_out 0 d1"
      using that(3,4) by (simp add: ball_handler_ai_def half_paddle_def)
    ultimately show ?thesis
      using that(1,2) by (simp add: ball_handler_body_def ball_handler_out_def Let_def)
  qed
  have loop: "ball_handler_loop cfg (keys # kss) d = Returned s"
    if "ball_handler_body cfg keys d = Returned s" for s
    using that by simp
  show ?thesis
    using human ai loop by blast
qed

theorem missed_hit_ends_round_witness:
  "winner (state_of (ball_handler_body sample_cfg []
      (sample_data\<lparr>ball_x := 78, ball_y := 16, paddle_pos := 5\<rparr>))) = 1
   \<and> play_flag (state_of (ball_handler_body sample_cfg []
      (sample_data\<lparr>ball_x := 78, ball_y := 16, paddle_pos := 5\<rparr>))) = 0
   \<and> pipe (state_of (ball_handler_body sample_cfg []
      (sample_data\<lparr>ball_x := 78, ball_y := 16, paddle_pos := 5\<rparr>))) = [QUIT_TAG]
   \<and> winner (state_of (ball_handler_body sample_cfg []
      (sample_data\<lparr>ball_x := 1, ball_dirx := - 1, ball_y := 16, ai_paddle_pos := 5\<rparr>))) = 0
   \<and> play_flag (state_of (ball_handler_body sample_cfg []
      (sample_data\<lparr>ball_x := 1, ball_dirx := - 1, ball_y := 16, ai_paddle_pos := 5\<rparr>))) = 0
   \<and> pipe (state_of (ball_handler_body sample_cfg []
      (sample_data\<lparr>ball_x := 1, ball_dirx := - 1, ball_y := 16, ai_paddle_pos := 5\<rparr>))) = [QUIT_TAG]"
proof -
  let ?a = "sample_data\<lparr>ball_x := 78, ball_y := 16, paddle_pos := 5\<rparr>"
  let ?b = "sample_data\<lparr>ball_x := 1, ball_dirx := - 1, ball_y := 16, ai_paddle_pos := 5\<rparr>"
  let ?ma = "ball_handler_wall sample_cfg (ball_handler_move ?a)"
  let ?mb = "ball_handler_wall sample_cfg (ball_handler_move ?b)"
  have ma: "?ma = sample_data\<lparr>ball_x := 79, ball_y := 17, paddle_pos := 5, ball_x_old := 78, ball_y_old := 16\<rparr>"
    by (simp add: ball_handler_wall_def ball_handler_move_def Let_def sample_data_def sample_cfg_def)
  have mb: "?mb = sample_data\<lparr>ball_x := 0, ball_dirx := - 1, ball_y := 17, ai_paddle_pos := 5, ball_x_old := 1, ball_y_old := 16\<rparr>"
    by (simp add: ball_handler_wall_def ball_handler_move_def Let_def sample_data_def sample_cfg_def)
  have ha: "haltFlag ?a = 0 \<and> ball_x ?ma = paddle_col ?ma
      \<and> \<not> \<bar>paddle_pos ?ma - ball_y ?ma + ball_diry ?ma\<bar> \<le> half_paddle sample_cfg"
    unfolding ma by (simp add: sample_data_def half_paddle_def half_sample)
  have hb: "haltFlag ?b = 0 \<and> ball_handler_player sample_cfg [] ?mb = Running ?mb
      \<and> ball_x ?mb = ai_paddle_col ?mb
      \<and> \<not> \<bar>ai_paddle_pos ?mb - ball_y ?mb + ball_diry ?mb\<bar> \<le> half_paddle sample_cfg"
    unfolding mb by (simp add: ball_handler_player_def sample_data_def half_paddle_def half_sample)
  have ra: "ball_handler_body sample_cfg [] ?a
          = Returned (?ma\<lparr>play_flag := 0, winner := 1, pipe := pipe ?a @ [QUIT_TAG]\<rparr>)"
    using missed_hit_ends_round [where d = ?a and cfg = sample_cfg and keys = "[]"] ha
    by blast
  have rb: "ball_handler_body sample_cfg [] ?b
          = Returned (?mb\<lparr>play_flag := 0, winner := 0, pipe := pipe ?b @ [QUIT_TAG]\<rparr>)"
    using missed_hit_ends_round [where d = ?b and cfg = sample_cfg and keys = "[]" and ?d1.0 = ?mb] hb
    by blast
  show ?thesis
    unfolding ra rb by (simp add: sample_data_def)
qed

text \<open>
  Claim C6, as the code has it. A pass with an accepted hit on the player's paddle that
  leaves \<open>gameLevel\<close> above \<open>MAX_LEVEL\<close> returns with \<open>play_flag = 0\<close>,
  \<open>winner = 0\<close> (the player) and exactly one \<open>QUIT_TAG\<close> more in the pipe, and the
  loop of the worker ends with it: when the hit does not change the level, and when it
  does and the banner is left with a blank typed before any quit key. When the quit key
  comes first at the banner, \<open>termination_handler\<close> ends the process: \<open>play_flag\<close>,
  \<open>winner\<close> and the pipe are as they were. The keys count as the \<open>char\<close> they are
  stored in.
\<close>

theorem level_exceeded_ends_round:
  assumes "haltFlag d = 0"
    and "player_hit cfg (ball_handler_wall cfg (ball_handler_move d))"
  shows "(hitCnt d < MAX_HITCNT cfg \<and> gameLevel d > MAX_LEVEL cfg \<longrightarrow>
            ball_handler_body cfg keys d
              = Returned ((hit_data (ball_handler_wall cfg (ball_handler_move d)))
                  \<lparr>hitCnt := hitCnt d + 1,
                   play_flag := 0, winner := 0, pipe := pipe d @ [QUIT_TAG]\<rparr>)
          \<and> ball_handler_loop cfg (keys # kss) d
              = Returned ((hit_data (ball_handler_wall cfg (ball_handler_move d)))
                  \<lparr>hitCnt := hitCnt d + 1,
                   play_flag := 0, winner := 0, pipe := pipe d @ [QUIT_TAG]\<rparr>))
       \<and> (hitCnt d \<ge> MAX_HITCNT cfg \<and> gameLevel d + 1 > MAX_LEVEL cfg
          \<and> keys = pre @ k # rest
          \<and> (\<forall>x \<in> set pre. c_char cfg x \<noteq> QUIT_KEY cfg \<and> c_char cfg x \<noteq> 32)
          \<and> c_char cfg k = 32 \<and> QUIT_KEY cfg \<noteq> 32 \<longrightarrow>
            ball_handler_body cfg keys d
              = Returned ((hit_data (ball_handler_wall cfg (ball_handler_move d)))
                  \<lparr>gameLevel := gameLevel d + 1, hitCnt := 0, haltFlag := 0,
                   play_flag := 0, winner := 0, pipe := pipe d @ [QUIT_TAG]\<rparr>)
          \<and> ball_handler_loop cfg (keys # kss) d
              = Returned ((hit_data (ball_handler_wall cfg (ball_handler_move d)))
                  \<lparr>gameLevel := gameLevel d + 1, hitCnt := 0, haltFlag := 0,
                   play_flag := 0, winner := 0, pipe := pipe d @ [QUIT_TAG]\<rparr>))
       \<and> (hitCnt d \<ge> MAX_HITCNT cfg
          \<and> keys = pre @ k # rest
          \<and> (\<forall>x \<in> set pre. c_char cfg x \<noteq> QUIT_KEY cfg \<and> c_char cfg x \<noteq> 32)
          \<and> c_char cfg k = QUIT_KEY cfg \<longrightarrow>
            ball_handler_body cfg keys d
              = Exited ((hit_data (ball_handler_wall cfg (ball_handler_move d)))
                  \<lparr>gameLevel := gameLevel d + 1, hitCnt := 0, haltFlag := 1\<rparr>)
          \<and> ball_handler_loop cfg (keys # kss) d
              = Exited ((hit_data (ball_handler_wall cfg (ball_handler_move d)))
                  \<lparr>gameLevel := gameLevel d + 1, hitCnt := 0, haltFlag := 1\<rparr>))"
proof -
  let ?m = "ball_handler_wall cfg (ball_handler_move d)"
  let ?h = "hit_data ?m"
  have f: "gameLevel ?h = gameLevel d" "hitCnt ?h = hitCnt d" "pipe ?h = pipe d"
    by (simp_all add: hit_data_def ball_handler_wall_def ball_handler_move_def Let_def)
  note b = body_player_hit [OF assms, of keys]
  have 1: "ball_handler_body cfg keys d
              = Returned (?h\<lparr>hitCnt := hitCnt d + 1,
                   play_flag := 0, winner := 0, pipe := pipe d @ [QUIT_TAG]\<rparr>)"
    if "hitCnt d < MAX_HITCNT cfg" "gameLevel d > MAX_LEVEL cfg"
    unfolding b using that f
    by (simp add: ball_handler_level_def ball_handler_out_def Let_def)
  have 2: "ball_handler_body cfg keys d
              = Returned (?h\<lparr>gameLevel := gameLevel d + 1, hitCnt := 0, haltFlag := 0,
                   play_flag := 0, winner := 0, pipe := pipe d @ [QUIT_TAG]\<rparr>)"
    if "hitCnt d \<ge> MAX_HITCNT cfg" "gameLevel d + 1 > MAX_LEVEL cfg" "keys = pre @ k # rest"
      "\<forall>x \<in> set pre. c_char cfg x \<noteq> QUIT_KEY cfg \<and> c_char cfg x \<noteq> 32"
      "c_char cfg k = 32" "QUIT_KEY cfg \<noteq> 32"
    unfolding b using that(1,2) f
    by (simp add: ball_handler_level_def ball_handler_out_def Let_def that(3)
        wait_blank [OF that(4,5,6)])
  have 3: "ball_handler_body cfg keys d
              = Exited (?h\<lparr>gameLevel := gameLevel d + 1, hitCnt := 0, haltFlag := 1\<rparr>)"
    if "hitCnt d \<ge> MAX_HITCNT cfg" "keys = pre @ k # rest"
      "\<forall>x \<in> set pre. c_char cfg x \<noteq> QUIT_KEY cfg \<and> c_char cfg x \<noteq> 32"
      "c_char cfg k = QUIT_KEY cfg"
    unfolding b using that(1) f
    by (simp add: ball_handler_level_def Let_def that(2) wait_quit [OF that(3,4)])
  have loop: "ball_handler_loop cfg (keys # kss) d = ball_handler_body cfg keys d"
    if "ball_handler_body cfg keys d = Returned s \<or> ball_handler_body cfg keys d = Exited s" for s
    using that by auto
  show ?thesis
    using 1 2 3 loop by (intro conjI impI) (simp_all del: ball_handler_loop.simps)
qed

theorem level_exceeded_ends_round_witness:
  "ball_handler_body sample_cfg []
      (sample_data\<lparr>ball_x := 78, ball_y := 9, gameLevel := 4, winner := 1\<rparr>)
    = Returned (sample_data\<lparr>ball_x := 77, ball_y := 10, ball_x_old := 78, ball_y_old := 9,
        ball_dirx := - 1, gameLevel := 4, hitCnt := 1, play_flag := 0, winner := 0,
        pipe := [QUIT_TAG]\<rparr>)
   \<and> ball_handler_body sample_cfg [97, 288, 113]
      (sample_data\<lparr>ball_x := 78, ball_y := 9, gameLevel := 3, hitCnt := 5, winner := 1\<rparr>)
    = Returned (sample_data\<lparr>ball_x := 77, ball_y := 10, ball_x_old := 78, ball_y_old := 9,
        ball_dirx := - 1, gameLevel := 4, hitCnt := 0, play_flag := 0, winner := 0,
        pipe := [QUIT_TAG]\<rparr>)
   \<and> ball_handler_body sample_cfg [97, 369, 32]
      (sample_data\<lparr>ball_x := 78, ball_y := 9, gameLevel := 3, hitCnt := 5, winner := 1\<rparr>)
    = Exited (sample_data\<lparr>ball_x := 77, ball_y := 10, ball_x_old := 78, ball_y_old := 9,
        ball_dirx := - 1, gameLevel := 4, hitCnt := 0, haltFlag := 1, winner := 1\<rparr>)"
proof -
  let ?a = "sample_data\<lparr>ball_x := 78, ball_y := 9, gameLevel := 4, winner := 1\<rparr>"
  let ?b = "sample_data\<lparr>ball_x := 78, ball_y := 9, gameLevel := 3, hitCnt := 5, winner := 1\<rparr>"
  have ma: "ball_handler_wall sample_cfg (ball_handler_move ?a)
      = sample_data\<lparr>ball_x := 79, ball_y := 10, ball_x_old := 78, ball_y_old := 9,
          gameLevel := 4, winner := 1\<rparr>"
    by (simp add: ball_handler_wall_def ball_handler_move_def Let_def sample_data_def sample_cfg_def)
  have mb: "ball_handler_wall sample_cfg (ball_handler_move ?b)
      = sample_data\<lparr>ball_x := 79, ball_y := 10, ball_x_old := 78, ball_y_old := 9,
          gameLevel := 3, hitCnt := 5, winner := 1\<rparr>"
    by (simp add: ball_handler_wall_def ball_handler_move_def Let_def sample_data_def sample_cfg_def)
  have ha: "haltFlag ?a = 0" and hb: "haltFlag ?b = 0"
    by (simp_all add: sample_data_def)
  have pa: "player_hit sample_cfg (ball_handler_wall sample_cfg (ball_handler_move ?a))"
    unfolding ma by (simp add: player_hit_def half_sample sample_data_def)
  have pb: "player_hit sample_cfg (ball_handler_wall sample_cfg (ball_handler_move ?b))"
    unfolding mb by (simp add: player_hit_def half_sample sample_data_def)
  have ca: "hitCnt ?a < MAX_HITCNT sample_cfg \<and> gameLevel ?a > MAX_LEVEL sample_cfg"
    by (simp add: sample_data_def sample_cfg_def)
  have cb: "hitCnt ?b \<ge> MAX_HITCNT sample_cfg \<and> gameLevel ?b + 1 > MAX_LEVEL sample_cfg
      \<and> QUIT_KEY sample_cfg \<noteq> 32"
    by (simp add: sample_data_def sample_cfg_def)
  have k: "\<forall>x \<in> set [97]. c_char sample_cfg x \<noteq> QUIT_KEY sample_cfg \<and> c_char sample_cfg x \<noteq> 32"
    "c_char sample_cfg 288 = 32" "c_char sample_cfg 369 = QUIT_KEY sample_cfg"
    by (simp_all add: c_char_sample) (simp_all add: sample_cfg_def)
  have l: "[97, 288, 113] = [97] @ 288 # [113::int]" "[97, 369, 32] = [97] @ 369 # [32::int]"
    by simp_all
  have 1: "ball_handler_body sample_cfg [] ?a
      = Returned ((hit_data (ball_handler_wall sample_cfg (ball_handler_move ?a)))
          \<lparr>hitCnt := hitCnt ?a + 1, play_flag := 0, winner := 0, pipe := pipe ?a @ [QUIT_TAG]\<rparr>)"
    using level_exceeded_ends_round [OF ha pa, where keys = "[]"] ca by blast
  have 2: "ball_handler_body sample_cfg [97, 288, 113] ?b
      = Returned ((hit_data (ball_handler_wall sample_cfg (ball_handler_move ?b)))
          \<lparr>gameLevel := gameLevel ?b + 1, hitCnt := 0, haltFlag := 0,
           play_flag := 0, winner := 0, pipe := pipe ?b @ [QUIT_TAG]\<rparr>)"
    using level_exceeded_ends_round [OF hb pb, where keys = "[97, 288, 113]" and pre = "[97]"
        and k = 288 and rest = "[113]"] cb k(1,2) l(1)
    by blast
  have 3: "ball_handler_body sample_cfg [97, 369, 32] ?b
      = Exited ((hit_data (ball_handler_wall sample_cfg (ball_handler_move ?b)))
          \<lparr>gameLevel := gameLevel ?b + 1, hitCnt := 0, haltFlag := 1\<rparr>)"
    using level_exceeded_ends_round [OF hb pb, where keys = "[97, 369, 32]" and pre = "[97]"
        and k = 369 and rest = "[32]"] cb k(1,3) l(2)
    by blast
  show ?thesis
    unfolding 1 2 3 ma mb by (simp add: hit_data_def sample_data_def)
qed

text \<open>
  With \<open>q\<close> typed at the banner the level is 4, above \<open>MAX_LEVEL = 3\<close>, and the pass
  ends in \<open>termination_handler\<close> with \<open>play_flag = 1\<close>, the winner not set to the
  player and nothing in the pipe.
\<close>

theorem level_exceeded_counterexample:
  "player_hit sample_cfg (ball_handler_wall sample_cfg (ball_handler_move
      (sample_data\<lparr>ball_x := 78, ball_y := 9, gameLevel := 3, hitCnt := 5, winner := 1\<rparr>)))
   \<and> ball_handler_body sample_cfg [113]
      (sample_data\<lparr>ball_x := 78, ball_y := 9, gameLevel := 3, hitCnt := 5, winner := 1\<rparr>)
    = Exited (sample_data\<lparr>ball_x := 77, ball_y := 10, ball_x_old := 78, ball_y_old := 9,
        ball_dirx := - 1, gameLevel := 4, hitCnt := 0, haltFlag := 1, winner := 1\<rparr>)
   \<and> gameLevel (sample_data\<lparr>ball_x := 77, ball_y := 10, ball_x_old := 78, ball_y_old := 9,
        ball_dirx := - 1, gameLevel := 4, hitCnt := 0, haltFlag := 1, winner := 1\<rparr>)
      > MAX_LEVEL sample_cfg
   \<and> play_flag (sample_data\<lparr>ball_x := 77, ball_y := 10, ball_x_old := 78, ball_y_old := 9,
        ball_dirx := - 1, gameLevel := 4, hitCnt := 0, haltFlag := 1, winner := 1\<rparr>) = 1
   \<and> winner (sample_data\<lparr>ball_x := 77, ball_y := 10, ball_x_old := 78, ball_y_old := 9,
        ball_dirx := - 1, gameLevel := 4, hitCnt := 0, haltFlag := 1, winner := 1\<rparr>) = 1
   \<and> pipe (sample_data\<lparr>ball_x := 77, ball_y := 10, ball_x_old := 78, ball_y_old := 9,
        ball_dirx := - 1, gameLevel := 4, hitCnt := 0, haltFlag := 1, winner := 1\<rparr>) = []"
proof -
  let ?b = "sample_data\<lparr>ball_x := 78, ball_y := 9, gameLevel := 3, hitCnt := 5, winner := 1\<rparr>"
  let ?m = "sample_data\<lparr>ball_x := 79, ball_y := 10, ball_x_old := 78, ball_y_old := 9,
          gameLevel := 3, hitCnt := 5, winner := 1\<rparr>"
  have mb: "ball_handler_wall sample_cfg (ball_handler_move ?b) = ?m"
    by (simp add: ball_handler_wall_def ball_handler_move_def Let_def sample_data_def sample_cfg_def)
  have pb: "player_hit sample_cfg ?m"
    by (simp add: player_hit_def half_sample sample_data_def)
  have q: "c_char sample_cfg 113 = QUIT_KEY sample_cfg" "MAX_HITCNT sample_cfg = 5"
    "MAX_LEVEL sample_cfg = 3"
    by (simp_all add: c_char_sample) (simp_all add: sample_cfg_def)
  have p: "ball_handler_player sample_cfg [113] ?m
      = Exited (sample_data\<lparr>ball_x := 77, ball_y := 10, ball_x_old := 78, ball_y_old := 9,
        ball_dirx := - 1, gameLevel := 4, hitCnt := 0, haltFlag := 1, winner := 1\<rparr>)"
    by (simp add: ball_handler_player_def ball_handler_level_def half_sample Let_def q
        sample_data_def)
  have b: "ball_handler_body sample_cfg [113] ?b
      = Exited (sample_data\<lparr>ball_x := 77, ball_y := 10, ball_x_old := 78, ball_y_old := 9,
        ball_dirx := - 1, gameLevel := 4, hitCnt := 0, haltFlag := 1, winner := 1\<rparr>)"
    unfolding ball_handler_body_def mb p by (simp add: sample_data_def)
  show ?thesis
    unfolding mb b using pb by (simp add: q sample_data_def)
qed

section \<open>The paddle of the AI\<close>

text \<open>
  Claim C8. A pass of the AI worker that is neither ended nor halted takes as candidate
  \<open>ai_paddle_pos\<close> plus the sign of \<open>ball_y - ai_paddle_pos\<close>, stores it exactly when
  it lies in \<open>[PADDLE_WIDTH/2, bottom_row - PADDLE_WIDTH/2]\<close>, and in either case puts
  the position before the move into \<open>ai_paddle_pos_old\<close>.
\<close>

theorem ai_step_towards_ball:
  assumes "termination_flag d = 0" and "haltFlag d = 0"
  shows "ai_handler_body cfg d = Running (ai_handler_move cfg d)
       \<and> ai_paddle_pos (ai_handler_move cfg d)
          = (if half_paddle cfg \<le> ai_paddle_pos d + sgn (ball_y d - ai_paddle_pos d)
                \<and> ai_paddle_pos d + sgn (ball_y d - ai_paddle_pos d) \<le> bottom_row d - half_paddle cfg
             then ai_paddle_pos d + sgn (ball_y d - ai_paddle_pos d)
             else ai_paddle_pos d)
       \<and> ai_paddle_pos_old (ai_handler_move cfg d) = ai_paddle_pos d"
  using assms
  by (simp add: ai_handler_body_def ai_handler_move_def Let_def c_div_sign half_paddle_def)

theorem ai_step_towards_ball_witness:
  "ai_handler_body sample_cfg (sample_data\<lparr>ball_y := 16\<rparr>)
      = Running (sample_data\<lparr>ball_y := 16, ai_paddle_pos := 11, pipe := [AI_TAG]\<rparr>)
   \<and> ai_paddle_pos (ai_handler_move sample_cfg (sample_data\<lparr>ball_y := 4\<rparr>)) = 9
   \<and> ai_paddle_pos (ai_handler_move sample_cfg (sample_data\<lparr>ball_y := 10\<rparr>)) = 10
   \<and> ai_paddle_pos (ai_handler_move sample_cfg (sample_data\<lparr>ball_y := 20, ai_paddle_pos := 17\<rparr>)) = 17
   \<and> ai_paddle_pos_old (ai_handler_move sample_cfg (sample_data\<lparr>ball_y := 20, ai_paddle_pos := 17\<rparr>)) = 17"
proof -
  have f: "termination_flag (sample_data\<lparr>ball_y := 16\<rparr>) = 0" "haltFlag (sample_data\<lparr>ball_y := 16\<rparr>) = 0"
    by (simp_all add: sample_data_def)
  have m: "ai_handler_move sample_cfg (sample_data\<lparr>ball_y := 16\<rparr>)
      = sample_data\<lparr>ball_y := 16, ai_paddle_pos := 11, pipe := [AI_TAG]\<rparr>"
    by (simp add: ai_handler_move_def Let_def half_sample c_div_sign sample_data_def)
  have r: "ai_paddle_pos (ai_handler_move sample_cfg (sample_data\<lparr>ball_y := 4\<rparr>)) = 9"
    "ai_paddle_pos (ai_handler_move sample_cfg (sample_data\<lparr>ball_y := 10\<rparr>)) = 10"
    "ai_paddle_pos (ai_handler_move sample_cfg (sample_data\<lparr>ball_y := 20, ai_paddle_pos := 17\<rparr>)) = 17"
    "ai_paddle_pos_old (ai_handler_move sample_cfg (sample_data\<lparr>ball_y := 20, ai_paddle_pos := 17\<rparr>)) = 17"
    by (simp_all add: ai_handler_move_def Let_def half_sample c_div_sign sample_data_def)
  show ?thesis
    using ai_step_towards_ball [OF f, of sample_cfg] m r by simp
qed

section \<open>The bounds of the paddles\<close>

text \<open>
  Claim C3, as the code has it. From a state with both paddles within
  \<open>[PADDLE_WIDTH/2, bottom_row - PADDLE_WIDTH/2]\<close>, no worker between a bound test and
  its write and no resize under way, the paddles are within these bounds after every
  step that leaves no resize under way, in any run made of the steps of the input
  worker on keys, of the AI worker, of the ball worker and of resizes, provided that
  every resize leaves \<open>PADDLE_WIDTH/2 \<le> bottom_row - PADDLE_WIDTH/2\<close> and no part of a
  resize comes between a worker's bound test and the write that the test guards. From
  a state within the bounds, a resize that leaves
  \<open>bottom_row - PADDLE_WIDTH/2 < PADDLE_WIDTH/2\<close> puts both paddles at
  \<open>PADDLE_WIDTH/2\<close>, above \<open>bottom_row - PADDLE_WIDTH/2\<close>.
\<close>

theorem paddles_stay_in_bounds:
  "(paddles_in_bounds cfg (shared w) \<and> ai_new w = None \<and> kbd w = Idle
      \<and> resizing w = No_resize \<and> calm cfg as w
      \<longrightarrow> (\<forall>n. resizing (acts cfg (take n as) w) = No_resize
              \<longrightarrow> paddles_in_bounds cfg (shared (acts cfg (take n as) w))))
   \<and> (paddles_in_bounds cfg d \<and> maxy - 1 - half_paddle cfg < half_paddle cfg
      \<longrightarrow> paddle_pos (resize_handler cfg maxy maxx d) = half_paddle cfg
        \<and> ai_paddle_pos (resize_handler cfg maxy maxx d) = half_paddle cfg
        \<and> bottom_row (resize_handler cfg maxy maxx d) - half_paddle cfg < half_paddle cfg)"
proof -
  have a: "paddles_in_bounds cfg (shared (acts cfg (take n as) w))"
    if "paddles_in_bounds cfg (shared w)" "ai_new w = None" "kbd w = Idle"
      "resizing w = No_resize" "calm cfg as w"
      "resizing (acts cfg (take n as) w) = No_resize" for n
  proof -
    have "world_inv cfg w"
      using that(1,2,3,4) by (simp add: world_inv_def paddles_in_bounds_def)
    then have "world_inv cfg (acts cfg (take n as) w)"
      using calm_take [OF that(5), of n] by (rule acts_inv)
    then show ?thesis
      using that(6) by (simp add: world_inv_def paddles_in_bounds_def)
  qed
  show ?thesis
    using a resize_short_field [of cfg d maxy maxx] by blast
qed

theorem paddles_stay_in_bounds_witness:
  "paddles_in_bounds sample_cfg (sample_data\<lparr>ball_y := 19\<rparr>)
   \<and> calm sample_cfg
        [Kbd_test KEY_UP None, Ai_test, Kbd_store, Ball_move, Ai_store, Resize_size 14 80,
         Ai_test, Resize_paddle, Resize_ai, Resize_ball, Kbd_test KEY_DOWN (Some 0), Kbd_store]
        \<lparr>shared = sample_data\<lparr>ball_y := 19\<rparr>, ai_new = None, kbd = Idle,
           resizing = No_resize\<rparr>
   \<and> acts sample_cfg
        [Kbd_test KEY_UP None, Ai_test, Kbd_store, Ball_move, Ai_store, Resize_size 14 80,
         Ai_test, Resize_paddle, Resize_ai, Resize_ball, Kbd_test KEY_DOWN (Some 0), Kbd_store]
        \<lparr>shared = sample_data\<lparr>ball_y := 19\<rparr>, ai_new = None, kbd = Idle,
           resizing = No_resize\<rparr>
      = \<lparr>shared = sample_data\<lparr>ball_y := 13, ball_x := 41, ball_y_old := 19, bottom_row := 13,
            paddle_pos := 10, paddle_pos_old := 9, ai_paddle_pos := 10,
            ai_paddle_pos_old := 11, pipe := [KBD_TAG, AI_TAG, AI_TAG, KBD_TAG]\<rparr>,
         ai_new = None, kbd = Idle, resizing = No_resize\<rparr>
   \<and> paddles_in_bounds sample_cfg
        (sample_data\<lparr>ball_y := 13, ball_x := 41, ball_y_old := 19, bottom_row := 13,
            paddle_pos := 10, paddle_pos_old := 9, ai_paddle_pos := 10,
            ai_paddle_pos_old := 11, pipe := [KBD_TAG, AI_TAG, AI_TAG, KBD_TAG]\<rparr>)
   \<and> paddles_in_bounds sample_cfg sample_data
   \<and> 5 - 1 - half_paddle sample_cfg < half_paddle sample_cfg
   \<and> paddle_pos (resize_handler sample_cfg 5 80 sample_data) = 3
   \<and> ai_paddle_pos (resize_handler sample_cfg 5 80 sample_data) = 3
   \<and> bottom_row (resize_handler sample_cfg 5 80 sample_data) = 4"
proof -
  let ?as = "[Kbd_test KEY_UP None, Ai_test, Kbd_store, Ball_move, Ai_store, Resize_size 14 80,
         Ai_test, Resize_paddle, Resize_ai, Resize_ball, Kbd_test KEY_DOWN (Some 0), Kbd_store]"
  let ?d0 = "sample_data\<lparr>ball_y := 19\<rparr>"
  let ?d3 = "sample_data\<lparr>ball_y := 19, paddle_pos := 9, pipe := [KBD_TAG]\<rparr>"
  let ?d4 = "sample_data\<lparr>ball_y := 20, ball_x := 41, ball_y_old := 19, paddle_pos := 9,
               pipe := [KBD_TAG]\<rparr>"
  let ?d5 = "sample_data\<lparr>ball_y := 20, ball_x := 41, ball_y_old := 19, paddle_pos := 9,
               ai_paddle_pos := 11, pipe := [KBD_TAG, AI_TAG]\<rparr>"
  let ?d6 = "sample_data\<lparr>ball_y := 20, ball_x := 41, ball_y_old := 19, bottom_row := 13,
               paddle_pos := 9, ai_paddle_pos := 11, pipe := [KBD_TAG, AI_TAG]\<rparr>"
  let ?d7 = "sample_data\<lparr>ball_y := 20, ball_x := 41, ball_y_old := 19, bottom_row := 13,
               paddle_pos := 9, ai_paddle_pos := 11, ai_paddle_pos_old := 11,
               pipe := [KBD_TAG, AI_TAG, AI_TAG]\<rparr>"
  let ?d9 = "sample_data\<lparr>ball_y := 20, ball_x := 41, ball_y_old := 19, bottom_row := 13,
               paddle_pos := 9, ai_paddle_pos := 10, ai_paddle_pos_old := 11,
               pipe := [KBD_TAG, AI_TAG, AI_TAG]\<rparr>"
  let ?d10 = "sample_data\<lparr>ball_y := 13, ball_x := 41, ball_y_old := 19, bottom_row := 13,
               paddle_pos := 9, ai_paddle_pos := 10, ai_paddle_pos_old := 11,
               pipe := [KBD_TAG, AI_TAG, AI_TAG]\<rparr>"
  let ?d11 = "sample_data\<lparr>ball_y := 13, ball_x := 41, ball_y_old := 19, bottom_row := 13,
               paddle_pos := 9, paddle_pos_old := 9, ai_paddle_pos := 10,
               ai_paddle_pos_old := 11, pipe := [KBD_TAG, AI_TAG, AI_TAG]\<rparr>"
  let ?d12 = "sample_data\<lparr>ball_y := 13, ball_x := 41, ball_y_old := 19, bottom_row := 13,
               paddle_pos := 10, paddle_pos_old := 9, ai_paddle_pos := 10,
               ai_paddle_pos_old := 11, pipe := [KBD_TAG, AI_TAG, AI_TAG, KBD_TAG]\<rparr>"
  let ?w0 = "\<lparr>shared = ?d0, ai_new = None, kbd = Idle, resizing = No_resize\<rparr>"
  let ?w1 = "\<lparr>shared = ?d0, ai_new = None, kbd = Dec, resizing = No_resize\<rparr>"
  let ?w2 = "\<lparr>shared = ?d0, ai_new = Some 11, kbd = Dec, resizing = No_resize\<rparr>"
  let ?w3 = "\<lparr>shared = ?d3, ai_new = Some 11, kbd = Idle, resizing = No_resize\<rparr>"
  let ?w4 = "\<lparr>shared = ?d4, ai_new = Some 11, kbd = Idle, resizing = No_resize\<rparr>"
  let ?w5 = "\<lparr>shared = ?d5, ai_new = None, kbd = Idle, resizing = No_resize\<rparr>"
  let ?w6 = "\<lparr>shared = ?d6, ai_new = None, kbd = Idle, resizing = Sized 80\<rparr>"
  let ?w7 = "\<lparr>shared = ?d7, ai_new = None, kbd = Idle, resizing = Sized 80\<rparr>"
  let ?w8 = "\<lparr>shared = ?d7, ai_new = None, kbd = Idle, resizing = Paddle_done 80\<rparr>"
  let ?w9 = "\<lparr>shared = ?d9, ai_new = None, kbd = Idle, resizing = Ai_done 80\<rparr>"
  let ?w10 = "\<lparr>shared = ?d10, ai_new = None, kbd = Idle, resizing = No_resize\<rparr>"
  let ?w11 = "\<lparr>shared = ?d11, ai_new = None, kbd = Inc, resizing = No_resize\<rparr>"
  let ?w12 = "\<lparr>shared = ?d12, ai_new = None, kbd = Idle, resizing = No_resize\<rparr>"
  have k: "KEY_DOWN \<noteq> KEY_UP"
    by (simp add: KEY_UP_def KEY_DOWN_def)
  have e1: "act sample_cfg (Kbd_test KEY_UP None) ?w0 = ?w1"
    by (simp add: half_sample Let_def sample_data_def)
  have e2: "act sample_cfg Ai_test ?w1 = ?w2"
    by (simp add: half_sample c_div_sign Let_def sample_data_def)
  have e3: "act sample_cfg Kbd_store ?w2 = ?w3"
    by (simp add: Let_def sample_data_def)
  have e4: "act sample_cfg Ball_move ?w3 = ?w4"
    by (simp add: ball_handler_move_def Let_def sample_data_def)
  have e5: "act sample_cfg Ai_store ?w4 = ?w5"
    by (simp add: Let_def sample_data_def)
  have e6: "act sample_cfg (Resize_size 14 80) ?w5 = ?w6"
    by (simp add: resize_handler_size_def Let_def sample_data_def)
  have e7: "act sample_cfg Ai_test ?w6 = ?w7"
    by (simp add: half_sample c_div_sign Let_def sample_data_def)
  have e8: "act sample_cfg Resize_paddle ?w7 = ?w8"
    by (simp add: resize_handler_paddle_def half_sample sample_data_def)
  have e9: "act sample_cfg Resize_ai ?w8 = ?w9"
    by (simp add: resize_handler_ai_paddle_def MAX_macro_def half_sample sample_data_def)
  have e10: "act sample_cfg Resize_ball ?w9 = ?w10"
    by (simp add: resize_handler_ball_def Let_def sample_data_def)
  have e11: "act sample_cfg (Kbd_test KEY_DOWN (Some 0)) ?w10 = ?w11"
    using k by (simp add: half_sample Let_def sample_data_def)
  have e12: "act sample_cfg Kbd_store ?w11 = ?w12"
    by (simp add: Let_def sample_data_def)
  have h: "half_paddle sample_cfg = 3"
    by (simp add: half_paddle_def half_sample)
  have 0: "paddles_in_bounds sample_cfg ?d0" "paddles_in_bounds sample_cfg sample_data"
    by (simp_all add: paddles_in_bounds_def h sample_data_def)
  have c: "calm sample_cfg ?as ?w0"
    by (simp add: e1 e2 e3 e4 e5 e6 e7 e8 e9 e10 e11 e12 h del: act.simps)
  have r: "acts sample_cfg ?as ?w0 = ?w12"
    by (simp add: e1 e2 e3 e4 e5 e6 e7 e8 e9 e10 e11 e12 del: act.simps)
  have s: "5 - 1 - half_paddle sample_cfg < half_paddle sample_cfg"
    by (simp add: h)
  have "take 12 ?as = ?as"
    by simp
  then have t: "acts sample_cfg (take 12 ?as) ?w0 = ?w12"
    using r by (simp only:)
  have pre: "paddles_in_bounds sample_cfg (shared ?w0) \<and> ai_new ?w0 = None \<and> kbd ?w0 = Idle
      \<and> resizing ?w0 = No_resize \<and> calm sample_cfg ?as ?w0"
    using 0(1) c by (simp del: calm.simps)
  have "\<forall>n. resizing (acts sample_cfg (take n ?as) ?w0) = No_resize
      \<longrightarrow> paddles_in_bounds sample_cfg (shared (acts sample_cfg (take n ?as) ?w0))"
    by (rule paddles_stay_in_bounds [THEN conjunct1, THEN mp, OF pre])
  then have "resizing (acts sample_cfg (take 12 ?as) ?w0) = No_resize
      \<longrightarrow> paddles_in_bounds sample_cfg (shared (acts sample_cfg (take 12 ?as) ?w0))"
    by (rule spec)
  then have i: "paddles_in_bounds sample_cfg ?d12"
    unfolding t by simp
  have short: "paddles_in_bounds sample_cfg sample_data
      \<and> 5 - 1 - half_paddle sample_cfg < half_paddle sample_cfg"
    using 0(2) s by simp
  have j: "paddle_pos (resize_handler sample_cfg 5 80 sample_data) = 3"
    "ai_paddle_pos (resize_handler sample_cfg 5 80 sample_data) = 3"
    using paddles_stay_in_bounds [THEN conjunct2, THEN mp, OF short, of 80] h
    by simp_all
  have b: "bottom_row (resize_handler sample_cfg 5 80 sample_data) = 4"
    by (simp add: resize_handler_def Let_def)
  show ?thesis
    by (intro conjI 0 c r i s j b)
qed

text \<open>
  Three runs leave the bounds. A pointer event stores its row in \<open>paddle_pos\<close> as it
  comes: row 0 puts the paddle at 0, below \<open>PADDLE_WIDTH/2 = 3\<close>. A resize to 14 rows
  between the AI's bound test, passed for row 17 with \<open>bottom_row = 20\<close>, and its store
  leaves \<open>ai_paddle_pos = 17\<close> above \<open>bottom_row - PADDLE_WIDTH/2 = 10\<close>. A resize to
  5 rows pins the paddle to \<open>PADDLE_WIDTH/2 = 3\<close>, above
  \<open>bottom_row - PADDLE_WIDTH/2 = 1\<close>.
\<close>

theorem paddles_in_bounds_counterexample:
  "paddles_in_bounds sample_cfg sample_data
   \<and> acts sample_cfg [Kbd_test 409 (Some 0)]
        \<lparr>shared = sample_data, ai_new = None, kbd = Idle, resizing = No_resize\<rparr>
      = \<lparr>shared = sample_data\<lparr>paddle_pos := 0, pipe := [KBD_TAG]\<rparr>,
         ai_new = None, kbd = Idle, resizing = No_resize\<rparr>
   \<and> \<not> paddles_in_bounds sample_cfg (sample_data\<lparr>paddle_pos := 0, pipe := [KBD_TAG]\<rparr>)
   \<and> paddles_in_bounds sample_cfg (sample_data\<lparr>ai_paddle_pos := 16, ball_y := 19\<rparr>)
   \<and> acts sample_cfg [Ai_test, Resize_size 14 80, Resize_paddle, Resize_ai, Resize_ball, Ai_store]
        \<lparr>shared = sample_data\<lparr>ai_paddle_pos := 16, ball_y := 19\<rparr>, ai_new = None, kbd = Idle,
           resizing = No_resize\<rparr>
      = \<lparr>shared = sample_data\<lparr>ai_paddle_pos := 17, ai_paddle_pos_old := 16, ball_y := 13,
            bottom_row := 13, pipe := [AI_TAG]\<rparr>,
         ai_new = None, kbd = Idle, resizing = No_resize\<rparr>
   \<and> \<not> paddles_in_bounds sample_cfg
        (sample_data\<lparr>ai_paddle_pos := 17, ai_paddle_pos_old := 16, ball_y := 13,
            bottom_row := 13, pipe := [AI_TAG]\<rparr>)
   \<and> acts sample_cfg [Resize_size 5 80, Resize_paddle, Resize_ai, Resize_ball]
        \<lparr>shared = sample_data, ai_new = None, kbd = Idle, resizing = No_resize\<rparr>
      = \<lparr>shared = sample_data\<lparr>bottom_row := 4, paddle_pos := 3, ai_paddle_pos := 3,
            ball_y := 4\<rparr>,
         ai_new = None, kbd = Idle, resizing = No_resize\<rparr>
   \<and> \<not> paddles_in_bounds sample_cfg
        (sample_data\<lparr>bottom_row := 4, paddle_pos := 3, ai_paddle_pos := 3, ball_y := 4\<rparr>)"
proof -
  let ?w0 = "\<lparr>shared = sample_data, ai_new = None, kbd = Idle, resizing = No_resize\<rparr>"
  let ?dA = "sample_data\<lparr>ai_paddle_pos := 16, ball_y := 19\<rparr>"
  let ?wA = "\<lparr>shared = ?dA, ai_new = None, kbd = Idle, resizing = No_resize\<rparr>"
  let ?dB = "sample_data\<lparr>ai_paddle_pos := 16, ai_paddle_pos_old := 16, ball_y := 19\<rparr>"
  let ?dC = "sample_data\<lparr>ai_paddle_pos := 16, ai_paddle_pos_old := 16, ball_y := 19,
               bottom_row := 13\<rparr>"
  let ?dD = "sample_data\<lparr>ai_paddle_pos := 10, ai_paddle_pos_old := 16, ball_y := 19,
               bottom_row := 13\<rparr>"
  let ?dE = "sample_data\<lparr>ai_paddle_pos := 10, ai_paddle_pos_old := 16, ball_y := 13,
               bottom_row := 13\<rparr>"
  let ?dF = "sample_data\<lparr>ai_paddle_pos := 17, ai_paddle_pos_old := 16, ball_y := 13,
               bottom_row := 13, pipe := [AI_TAG]\<rparr>"
  have h: "half_paddle sample_cfg = 3"
    by (simp add: half_paddle_def half_sample)
  have k: "(409::int) \<noteq> KEY_UP" "(409::int) \<noteq> KEY_DOWN" "409 \<noteq> PLAY_KEY sample_cfg"
    "409 \<noteq> QUIT_KEY sample_cfg"
    by (simp_all add: KEY_UP_def KEY_DOWN_def sample_cfg_def)
  have 0: "paddles_in_bounds sample_cfg sample_data" "paddles_in_bounds sample_cfg ?dA"
    by (simp_all add: paddles_in_bounds_def h sample_data_def)
  have p: "acts sample_cfg [Kbd_test 409 (Some 0)] ?w0
      = \<lparr>shared = sample_data\<lparr>paddle_pos := 0, pipe := [KBD_TAG]\<rparr>,
         ai_new = None, kbd = Idle, resizing = No_resize\<rparr>"
    using k by (simp add: keyboard_handler_switch_def Let_def sample_data_def)
  have a1: "act sample_cfg Ai_test ?wA
      = \<lparr>shared = ?dB, ai_new = Some 17, kbd = Idle, resizing = No_resize\<rparr>"
    by (simp add: half_sample c_div_sign Let_def sample_data_def)
  have a2: "act sample_cfg (Resize_size 14 80)
        \<lparr>shared = ?dB, ai_new = Some 17, kbd = Idle, resizing = No_resize\<rparr>
      = \<lparr>shared = ?dC, ai_new = Some 17, kbd = Idle, resizing = Sized 80\<rparr>"
    by (simp add: resize_handler_size_def Let_def sample_data_def)
  have a3: "act sample_cfg Resize_paddle
        \<lparr>shared = ?dC, ai_new = Some 17, kbd = Idle, resizing = Sized 80\<rparr>
      = \<lparr>shared = ?dC, ai_new = Some 17, kbd = Idle, resizing = Paddle_done 80\<rparr>"
    by (simp add: resize_handler_paddle_def half_sample sample_data_def)
  have a4: "act sample_cfg Resize_ai
        \<lparr>shared = ?dC, ai_new = Some 17, kbd = Idle, resizing = Paddle_done 80\<rparr>
      = \<lparr>shared = ?dD, ai_new = Some 17, kbd = Idle, resizing = Ai_done 80\<rparr>"
    by (simp add: resize_handler_ai_paddle_def MAX_macro_def half_sample sample_data_def)
  have a5: "act sample_cfg Resize_ball
        \<lparr>shared = ?dD, ai_new = Some 17, kbd = Idle, resizing = Ai_done 80\<rparr>
      = \<lparr>shared = ?dE, ai_new = Some 17, kbd = Idle, resizing = No_resize\<rparr>"
    by (simp add: resize_handler_ball_def Let_def sample_data_def)
  have a6: "act sample_cfg Ai_store
        \<lparr>shared = ?dE, ai_new = Some 17, kbd = Idle, resizing = No_resize\<rparr>
      = \<lparr>shared = ?dF, ai_new = None, kbd = Idle, resizing = No_resize\<rparr>"
    by (simp add: Let_def sample_data_def)
  have a: "acts sample_cfg [Ai_test, Resize_size 14 80, Resize_paddle, Resize_ai, Resize_ball,
        Ai_store] ?wA
      = \<lparr>shared = ?dF, ai_new = None, kbd = Idle, resizing = No_resize\<rparr>"
    by (simp add: a1 a2 a3 a4 a5 a6 del: act.simps)
  have rs: "resize_handler sample_cfg 5 80 sample_data
      = sample_data\<lparr>bottom_row := 4, paddle_pos := 3, ai_paddle_pos := 3, ball_y := 4\<rparr>"
    by (simp add: resize_handler_def MAX_macro_def half_sample Let_def sample_data_def)
  have r: "acts sample_cfg [Resize_size 5 80, Resize_paddle, Resize_ai, Resize_ball] ?w0
      = \<lparr>shared = sample_data\<lparr>bottom_row := 4, paddle_pos := 3, ai_paddle_pos := 3,
            ball_y := 4\<rparr>,
         ai_new = None, kbd = Idle, resizing = No_resize\<rparr>"
  proof -
    have "resizing ?w0 = No_resize"
      by simp
    then have "acts sample_cfg [Resize_size 5 80, Resize_paddle, Resize_ai, Resize_ball] ?w0
        = ?w0\<lparr>shared := resize_handler sample_cfg 5 80 (shared ?w0)\<rparr>"
      by (rule resize_steps)
    then show ?thesis
      by (simp add: rs del: acts.simps)
  qed
  have n: "\<not> paddles_in_bounds sample_cfg (sample_data\<lparr>paddle_pos := 0, pipe := [KBD_TAG]\<rparr>)"
    "\<not> paddles_in_bounds sample_cfg ?dF"
    "\<not> paddles_in_bounds sample_cfg
        (sample_data\<lparr>bottom_row := 4, paddle_pos := 3, ai_paddle_pos := 3, ball_y := 4\<rparr>)"
    by (simp_all add: paddles_in_bounds_def h sample_data_def)
  show ?thesis
    by (intro conjI 0 p a r n)
qed

section \<open>The resize\<close>

text \<open>
  Claim C7, as the code has it. After a resize \<open>bottom_row\<close> is the last row of the new
  screen. A paddle beyond \<open>bottom_row - PADDLE_WIDTH/2\<close> is pinned to the larger of
  \<open>bottom_row - PADDLE_WIDTH/2\<close> and \<open>PADDLE_WIDTH/2\<close>. When \<open>ball_x\<close> exceeds the
  new width, \<open>ball_y\<close> becomes half the new width; otherwise a \<open>ball_y\<close> beyond the new
  \<open>bottom_row\<close> becomes \<open>bottom_row\<close>. A shrink of \<open>bottom_row\<close> below
  \<open>paddle_pos + PADDLE_WIDTH/2\<close> puts the paddle at \<open>bottom_row - PADDLE_WIDTH/2\<close>
  when that is at least \<open>PADDLE_WIDTH/2\<close>.
\<close>

theorem resize_handler_clamp:
  "bottom_row (resize_handler cfg maxy maxx d) = maxy - 1
   \<and> (paddle_pos d > maxy - 1 - half_paddle cfg \<longrightarrow>
        paddle_pos (resize_handler cfg maxy maxx d)
          = max (maxy - 1 - half_paddle cfg) (half_paddle cfg))
   \<and> (ai_paddle_pos d > maxy - 1 - half_paddle cfg \<longrightarrow>
        ai_paddle_pos (resize_handler cfg maxy maxx d)
          = max (maxy - 1 - half_paddle cfg) (half_paddle cfg))
   \<and> (ball_x d > maxx \<longrightarrow> ball_y (resize_handler cfg maxy maxx d) = c_div maxx 2)
   \<and> (\<not> ball_x d > maxx \<and> ball_y d > maxy - 1 \<longrightarrow>
        ball_y (resize_handler cfg maxy maxx d) = maxy - 1)
   \<and> (maxy - 1 < paddle_pos d + half_paddle cfg
        \<and> half_paddle cfg \<le> maxy - 1 - half_paddle cfg \<longrightarrow>
        paddle_pos (resize_handler cfg maxy maxx d) = maxy - 1 - half_paddle cfg)"
  by (simp add: resize_handler_def half_paddle_def MAX_macro_def Let_def max_def)

theorem resize_handler_clamp_witness:
  "paddle_pos (sample_data\<lparr>ball_y := 19, ai_paddle_pos := 12\<rparr>) > 12 - 1 - half_paddle sample_cfg
   \<and> 12 - 1 < paddle_pos (sample_data\<lparr>ball_y := 19, ai_paddle_pos := 12\<rparr>) + half_paddle sample_cfg
   \<and> half_paddle sample_cfg \<le> 12 - 1 - half_paddle sample_cfg
   \<and> bottom_row (resize_handler sample_cfg 12 80 (sample_data\<lparr>ball_y := 19, ai_paddle_pos := 12\<rparr>)) = 11
   \<and> paddle_pos (resize_handler sample_cfg 12 80 (sample_data\<lparr>ball_y := 19, ai_paddle_pos := 12\<rparr>)) = 8
   \<and> ai_paddle_pos (resize_handler sample_cfg 12 80 (sample_data\<lparr>ball_y := 19, ai_paddle_pos := 12\<rparr>)) = 8
   \<and> ball_y (resize_handler sample_cfg 12 80 (sample_data\<lparr>ball_y := 19, ai_paddle_pos := 12\<rparr>)) = 11
   \<and> ball_y (resize_handler sample_cfg 12 30 (sample_data\<lparr>ball_y := 19, ai_paddle_pos := 12\<rparr>)) = 15"
proof -
  let ?d = "sample_data\<lparr>ball_y := 19, ai_paddle_pos := 12\<rparr>"
  have h: "half_paddle sample_cfg = 3" by (simp add: half_paddle_def half_sample)
  have f: "paddle_pos ?d = 10" "ai_paddle_pos ?d = 12" "ball_x ?d = 40" "ball_y ?d = 19"
    by (simp_all add: sample_data_def)
  have c: "c_div 30 2 = 15" by (simp add: c_div_def)
  show ?thesis
    using resize_handler_clamp [of sample_cfg 12 80 ?d] resize_handler_clamp [of sample_cfg 12 30 ?d]
    unfolding h f by (simp add: c)
qed

text \<open>
  On a screen of 5 rows and 80 columns, with the paddle at row 10, the ball in row 30 and
  column 100: the paddle goes to 3, not to \<open>bottom_row - PADDLE_WIDTH/2 = 1\<close>, and the
  ball to row 40, not to \<open>bottom_row = 4\<close>.
\<close>

theorem resize_handler_clamp_counterexample:
  "bottom_row (resize_handler sample_cfg 5 80 (sample_data\<lparr>ball_x := 100, ball_y := 30\<rparr>))
      < paddle_pos (sample_data\<lparr>ball_x := 100, ball_y := 30\<rparr>) + half_paddle sample_cfg
   \<and> paddle_pos (resize_handler sample_cfg 5 80 (sample_data\<lparr>ball_x := 100, ball_y := 30\<rparr>)) = 3
   \<and> paddle_pos (resize_handler sample_cfg 5 80 (sample_data\<lparr>ball_x := 100, ball_y := 30\<rparr>))
      \<noteq> bottom_row (resize_handler sample_cfg 5 80 (sample_data\<lparr>ball_x := 100, ball_y := 30\<rparr>))
          - half_paddle sample_cfg
   \<and> ball_y (sample_data\<lparr>ball_x := 100, ball_y := 30\<rparr>)
      > bottom_row (resize_handler sample_cfg 5 80 (sample_data\<lparr>ball_x := 100, ball_y := 30\<rparr>))
   \<and> ball_y (resize_handler sample_cfg 5 80 (sample_data\<lparr>ball_x := 100, ball_y := 30\<rparr>)) = 40
   \<and> ball_y (resize_handler sample_cfg 5 80 (sample_data\<lparr>ball_x := 100, ball_y := 30\<rparr>))
      \<noteq> bottom_row (resize_handler sample_cfg 5 80 (sample_data\<lparr>ball_x := 100, ball_y := 30\<rparr>))"
proof -
  have c: "c_div 80 2 = 40" by (simp add: c_div_def)
  show ?thesis
    by (simp add: resize_handler_def MAX_macro_def half_paddle_def half_sample Let_def
        sample_data_def c)
qed

text \<open>
  Claim C10. \<open>resize_handler\<close> leaves \<open>ball_x\<close> as it was. When \<open>ball_x\<close> exceeds the
  new width, the result is that of the same resize with the ball inside the width, except
  for \<open>ball_x\<close> itself and for \<open>ball_y\<close>, which is half the new width; \<open>ball_x\<close> is
  still beyond the width afterwards.
\<close>

theorem resize_handler_ball_x:
  "ball_x (resize_handler cfg maxy maxx d) = ball_x d
   \<and> (ball_x d > maxx \<longrightarrow>
        resize_handler cfg maxy maxx d
          = (resize_handler cfg maxy maxx (d\<lparr>ball_x := maxx\<rparr>))
              \<lparr>ball_x := ball_x d, ball_y := c_div maxx 2\<rparr>
      \<and> ball_x (resize_handler cfg maxy maxx d) > maxx)"
  by (simp add: resize_handler_def Let_def)

theorem resize_handler_ball_x_witness:
  "ball_x (sample_data\<lparr>ball_x := 100\<rparr>) > 80
   \<and> ball_x (resize_handler sample_cfg 21 80 (sample_data\<lparr>ball_x := 100\<rparr>)) = 100
   \<and> ball_y (resize_handler sample_cfg 21 80 (sample_data\<lparr>ball_x := 100\<rparr>)) = 40
   \<and> paddle_col (resize_handler sample_cfg 21 80 (sample_data\<lparr>ball_x := 100\<rparr>)) = 79"
proof -
  let ?d = "sample_data\<lparr>ball_x := 100\<rparr>"
  have c: "c_div 80 2 = 40" by (simp add: c_div_def)
  have f: "ball_x ?d = 100" by (simp add: sample_data_def)
  have y: "ball_y (resize_handler sample_cfg 21 80 ?d) = 40"
    "paddle_col (resize_handler sample_cfg 21 80 ?d) = 79"
    by (simp_all add: resize_handler_def MAX_macro_def half_sample Let_def sample_data_def c)
  show ?thesis
    using resize_handler_ball_x [of sample_cfg 21 80 ?d] f y by simp
qed

section \<open>The halt flag\<close>



end
